theory Spec2Isabelle
  imports Complex_Main "HOL-Library.Word"
begin

unbundle bit_operations_syntax

section \<open>Numbers of the host language\<close>

text \<open>
  The editor is JavaScript: every number is a double. The model keeps the four kinds of
  value a double can be, with the finite ones as exact rationals: rounding of the
  arithmetic to 53 bits and the sign of zero are not modelled (a zero divisor counts
  as +0).
\<close>

datatype jsnum = Fin rat | PInf | NInf | NaN

fun jneg :: "jsnum \<Rightarrow> jsnum" where
  "jneg (Fin a) = Fin (- a)"
| "jneg PInf = NInf"
| "jneg NInf = PInf"
| "jneg NaN = NaN"

fun jadd :: "jsnum \<Rightarrow> jsnum \<Rightarrow> jsnum" where
  "jadd (Fin a) (Fin b) = Fin (a + b)"
| "jadd NaN _ = NaN"
| "jadd _ NaN = NaN"
| "jadd PInf NInf = NaN"
| "jadd NInf PInf = NaN"
| "jadd PInf _ = PInf"
| "jadd _ PInf = PInf"
| "jadd NInf _ = NInf"
| "jadd _ NInf = NInf"

definition jsub :: "jsnum \<Rightarrow> jsnum \<Rightarrow> jsnum" where
  "jsub a b = jadd a (jneg b)"

fun jmul :: "jsnum \<Rightarrow> jsnum \<Rightarrow> jsnum" where
  "jmul (Fin a) (Fin b) = Fin (a * b)"
| "jmul NaN _ = NaN"
| "jmul _ NaN = NaN"
| "jmul PInf (Fin b) = (if b = 0 then NaN else if 0 < b then PInf else NInf)"
| "jmul NInf (Fin b) = (if b = 0 then NaN else if 0 < b then NInf else PInf)"
| "jmul (Fin a) PInf = (if a = 0 then NaN else if 0 < a then PInf else NInf)"
| "jmul (Fin a) NInf = (if a = 0 then NaN else if 0 < a then NInf else PInf)"
| "jmul PInf PInf = PInf"
| "jmul PInf NInf = NInf"
| "jmul NInf PInf = NInf"
| "jmul NInf NInf = PInf"

fun jdiv :: "jsnum \<Rightarrow> jsnum \<Rightarrow> jsnum" where
  "jdiv (Fin a) (Fin b) =
     (if b = 0 then (if a = 0 then NaN else if 0 < a then PInf else NInf) else Fin (a / b))"
| "jdiv NaN _ = NaN"
| "jdiv _ NaN = NaN"
| "jdiv (Fin a) PInf = Fin 0"
| "jdiv (Fin a) NInf = Fin 0"
| "jdiv PInf (Fin b) = (if 0 \<le> b then PInf else NInf)"
| "jdiv NInf (Fin b) = (if 0 \<le> b then NInf else PInf)"
| "jdiv PInf PInf = NaN"
| "jdiv PInf NInf = NaN"
| "jdiv NInf PInf = NaN"
| "jdiv NInf NInf = NaN"

text \<open>\<open>a < b\<close>; every comparison with NaN is false.\<close>

fun jlt :: "jsnum \<Rightarrow> jsnum \<Rightarrow> bool" where
  "jlt (Fin a) (Fin b) = (a < b)"
| "jlt NaN _ = False"
| "jlt _ NaN = False"
| "jlt NInf NInf = False"
| "jlt NInf _ = True"
| "jlt _ NInf = False"
| "jlt PInf _ = False"
| "jlt _ PInf = True"

definition jgt :: "jsnum \<Rightarrow> jsnum \<Rightarrow> bool" where
  "jgt a b = jlt b a"

text \<open>\<open>a === b\<close> on numbers: NaN equals nothing.\<close>

definition jeq :: "jsnum \<Rightarrow> jsnum \<Rightarrow> bool" where
  "jeq a b = (a \<noteq> NaN \<and> a = b)"

text \<open>\<open>Math.max\<close> and \<open>Math.min\<close>: NaN as soon as one argument is NaN.\<close>

definition jmax :: "jsnum \<Rightarrow> jsnum \<Rightarrow> jsnum" where
  "jmax a b = (if a = NaN \<or> b = NaN then NaN else if jlt a b then b else a)"

definition jmin :: "jsnum \<Rightarrow> jsnum \<Rightarrow> jsnum" where
  "jmin a b = (if a = NaN \<or> b = NaN then NaN else if jlt b a then b else a)"

text \<open>\<open>a % b\<close>: the remainder has the sign of the dividend.\<close>

definition truncq :: "rat \<Rightarrow> int" where
  "truncq x = (if 0 \<le> x then \<lfloor>x\<rfloor> else \<lceil>x\<rceil>)"

fun jmod :: "jsnum \<Rightarrow> jsnum \<Rightarrow> jsnum" where
  "jmod (Fin a) (Fin b) = (if b = 0 then NaN else Fin (a - b * of_int (truncq (a / b))))"
| "jmod NaN _ = NaN"
| "jmod _ NaN = NaN"
| "jmod PInf _ = NaN"
| "jmod NInf _ = NaN"
| "jmod (Fin a) PInf = Fin a"
| "jmod (Fin a) NInf = Fin a"

text \<open>\<open>Math.round\<close>: the nearest integer, a half going up.\<close>

fun jround :: "jsnum \<Rightarrow> jsnum" where
  "jround (Fin a) = Fin (of_int \<lfloor>a + 1 / 2\<rfloor>)"
| "jround x = x"

section \<open>Values: the decoded document\<close>

text \<open>
  A document is what \<open>JSON.parse\<close> returns: a tree of objects and arrays. An object is
  the list of its entries in enumeration order. \<open>JUndef\<close> is \<open>undefined\<close>: a missing
  property, or a hole left in an array by a write past its end.
\<close>

datatype jsval =
    JUndef
  | JNull
  | JBool bool
  | JNum jsnum
  | JStr string
  | JArr "jsval list"
  | JObj "(string \<times> jsval) list"

datatype error = TypeError | SyntaxError | Diverges

fun truthy :: "jsval \<Rightarrow> bool" where
  "truthy JUndef = False"
| "truthy JNull = False"
| "truthy (JBool b) = b"
| "truthy (JNum n) = (n \<noteq> NaN \<and> n \<noteq> Fin 0)"
| "truthy (JStr s) = (s \<noteq> [])"
| "truthy (JArr _) = True"
| "truthy (JObj _) = True"

text \<open>\<open>typeof v === "object"\<close>: objects, arrays and null.\<close>

fun typeofObject :: "jsval \<Rightarrow> bool" where
  "typeofObject JNull = True"
| "typeofObject (JArr _) = True"
| "typeofObject (JObj _) = True"
| "typeofObject _ = False"

fun typeofNumber :: "jsval \<Rightarrow> bool" where
  "typeofNumber (JNum _) = True"
| "typeofNumber _ = False"

fun isArray :: "jsval \<Rightarrow> bool" where
  "isArray (JArr _) = True"
| "isArray _ = False"

fun isNullish :: "jsval \<Rightarrow> bool" where
  "isNullish JUndef = True"
| "isNullish JNull = True"
| "isNullish _ = False"

fun elems :: "jsval \<Rightarrow> jsval list" where
  "elems (JArr xs) = xs"
| "elems _ = []"

subsection \<open>Decimal strings of array indices\<close>

definition digitChar :: "nat \<Rightarrow> char" where
  "digitChar n = ''0123456789abcdef'' ! n"

function showNat :: "nat \<Rightarrow> string" where
  "showNat n = (if n < 10 then [digitChar n] else showNat (n div 10) @ [digitChar (n mod 10)])"
  by pat_completeness auto
termination
  by (relation "measure id") auto

declare showNat.simps [simp del]

definition isDecDigit :: "char \<Rightarrow> bool" where
  "isDecDigit c = (48 \<le> (of_char c :: nat) \<and> (of_char c :: nat) \<le> 57)"

definition decValue :: "string \<Rightarrow> nat" where
  "decValue s = foldl (\<lambda>acc c. acc * 10 + ((of_char c :: nat) - 48)) 0 s"

text \<open>A property name is an array index when it is the canonical decimal string of one.\<close>

definition parseIndex :: "string \<Rightarrow> nat option" where
  "parseIndex s =
     (if s \<noteq> [] \<and> list_all isDecDigit s \<and> (s = ''0'' \<or> hd s \<noteq> CHR ''0'')
      then Some (decValue s) else None)"

subsection \<open>Reading a property\<close>

text \<open>
  \<open>v[key]\<close> for a \<open>v\<close> that is neither null nor undefined (there the read raises, and
  every call site says so). Inherited properties other than \<open>length\<close> are not modelled.
\<close>

fun getProp :: "jsval \<Rightarrow> string \<Rightarrow> jsval" where
  "getProp (JObj kvs) key = (case map_of kvs key of Some v \<Rightarrow> v | None \<Rightarrow> JUndef)"
| "getProp (JArr xs) key =
     (case parseIndex key of
        Some i \<Rightarrow> (if i < length xs then xs ! i else JUndef)
      | None \<Rightarrow> (if key = ''length'' then JNum (Fin (of_nat (length xs))) else JUndef))"
| "getProp (JStr s) key =
     (case parseIndex key of
        Some i \<Rightarrow> (if i < length s then JStr [s ! i] else JUndef)
      | None \<Rightarrow> (if key = ''length'' then JNum (Fin (of_nat (length s))) else JUndef))"
| "getProp _ key = JUndef"

fun hasOwnProperty :: "jsval \<Rightarrow> string \<Rightarrow> bool" where
  "hasOwnProperty (JObj kvs) key = (map_of kvs key \<noteq> None)"
| "hasOwnProperty (JArr xs) key =
     (case parseIndex key of
        Some i \<Rightarrow> i < length xs \<and> xs ! i \<noteq> JUndef
      | None \<Rightarrow> key = ''length'')"
| "hasOwnProperty (JStr s) key =
     (case parseIndex key of Some i \<Rightarrow> i < length s | None \<Rightarrow> key = ''length'')"
| "hasOwnProperty _ key = False"

text \<open>\<open>arr[i]\<close> for a number \<open>i\<close>.\<close>

definition nth_js :: "jsval list \<Rightarrow> nat \<Rightarrow> jsval" where
  "nth_js xs i = (if i < length xs then xs ! i else JUndef)"

text \<open>\<open>arr[i] = v\<close>: a write past the end extends the array, leaving holes.\<close>

definition setIndex :: "jsval list \<Rightarrow> nat \<Rightarrow> jsval \<Rightarrow> jsval list" where
  "setIndex xs i v =
     (if i < length xs then xs[i := v] else xs @ replicate (i - length xs) JUndef @ [v])"

text \<open>\<open>obj[key] = v\<close> on the entries of an object: in place, or appended.\<close>

fun setEntry :: "(string \<times> jsval) list \<Rightarrow> string \<Rightarrow> jsval \<Rightarrow> (string \<times> jsval) list" where
  "setEntry [] key v = [(key, v)]"
| "setEntry ((k, x) # kvs) key v =
     (if k = key then (k, v) # kvs else (k, x) # setEntry kvs key v)"

text \<open>
  \<open>v[key] = x\<close> on an object or array. On anything else the write does nothing in the
  model (the call sites of the editor only write to objects and arrays).
\<close>

fun setProp :: "jsval \<Rightarrow> string \<Rightarrow> jsval \<Rightarrow> jsval" where
  "setProp (JObj kvs) key v = JObj (setEntry kvs key v)"
| "setProp (JArr xs) key v =
     (case parseIndex key of Some i \<Rightarrow> JArr (setIndex xs i v) | None \<Rightarrow> JArr xs)"
| "setProp w key v = w"

subsection \<open>Using a value as a number\<close>

text \<open>
  \<open>v * 255\<close> first turns \<open>v\<close> into a number. For undefined, null, booleans and numbers
  the rule is written out. What the language makes of a string, an array or an object
  is the parameter \<open>cn\<close> of the model: every theorem holds for each such conversion.
\<close>

fun toNumber :: "(jsval \<Rightarrow> jsnum) \<Rightarrow> jsval \<Rightarrow> jsnum" where
  "toNumber cn JUndef = NaN"
| "toNumber cn JNull = Fin 0"
| "toNumber cn (JBool b) = (if b then Fin 1 else Fin 0)"
| "toNumber cn (JNum n) = n"
| "toNumber cn v = cn v"

subsection \<open>The deep copy \<open>JSON.parse(JSON.stringify(v))\<close>\<close>

text \<open>
  Serialising turns NaN, the infinities and the holes of an array into null, and drops
  the properties of an object whose value is undefined. Serialising undefined itself
  gives no text, and parsing that raises.
\<close>

fun jsonNorm :: "jsval \<Rightarrow> jsval"
  and jsonNormList :: "jsval list \<Rightarrow> jsval list"
  and jsonNormEntries :: "(string \<times> jsval) list \<Rightarrow> (string \<times> jsval) list" where
  "jsonNorm JUndef = JNull"
| "jsonNorm JNull = JNull"
| "jsonNorm (JBool b) = JBool b"
| "jsonNorm (JNum (Fin a)) = JNum (Fin a)"
| "jsonNorm (JNum PInf) = JNull"
| "jsonNorm (JNum NInf) = JNull"
| "jsonNorm (JNum NaN) = JNull"
| "jsonNorm (JStr s) = JStr s"
| "jsonNorm (JArr xs) = JArr (jsonNormList xs)"
| "jsonNorm (JObj kvs) = JObj (jsonNormEntries kvs)"
| "jsonNormList [] = []"
| "jsonNormList (x # xs) = jsonNorm x # jsonNormList xs"
| "jsonNormEntries [] = []"
| "jsonNormEntries ((k, v) # kvs) =
     (if v = JUndef then jsonNormEntries kvs else (k, jsonNorm v) # jsonNormEntries kvs)"

definition deepCopy :: "jsval \<Rightarrow> error + jsval" where
  "deepCopy v = (if v = JUndef then Inl SyntaxError else Inr (jsonNorm v))"

section \<open>colorUtils.js\<close>

subsection \<open>rgbToHex\<close>

function toHexNat :: "nat \<Rightarrow> string" where
  "toHexNat n = (if n < 16 then [digitChar n] else toHexNat (n div 16) @ [digitChar (n mod 16)])"
  by pat_completeness auto
termination
  by (relation "measure id") auto

declare toHexNat.simps [simp del]

text \<open>\<open>Math.round(x).toString(16)\<close>.\<close>

fun roundToString16 :: "jsnum \<Rightarrow> string" where
  "roundToString16 (Fin a) =
     (let k = \<lfloor>a + 1 / 2\<rfloor> in if k < 0 then CHR ''-'' # toHexNat (nat (- k)) else toHexNat (nat k))"
| "roundToString16 PInf = ''Infinity''"
| "roundToString16 NInf = ''-Infinity''"
| "roundToString16 NaN = ''NaN''"

text \<open>\<open>s.padStart(2, "0")\<close>.\<close>

definition padStart2 :: "string \<Rightarrow> string" where
  "padStart2 s = replicate (2 - length s) (CHR ''0'') @ s"

definition rgbToHex :: "jsnum \<Rightarrow> jsnum \<Rightarrow> jsnum \<Rightarrow> string" where
  "rgbToHex r g b = CHR ''#'' # concat (map (\<lambda>x. padStart2 (roundToString16 x)) [r, g, b])"

text \<open>\<open>rgbaToHex(arr)\<close>: the first three entries of the array, each times 255.\<close>

definition rgbaToHex :: "(jsval \<Rightarrow> jsnum) \<Rightarrow> jsval list \<Rightarrow> string" where
  "rgbaToHex cn arr =
     rgbToHex (jmul (toNumber cn (nth_js arr 0)) (Fin 255))
              (jmul (toNumber cn (nth_js arr 1)) (Fin 255))
              (jmul (toNumber cn (nth_js arr 2)) (Fin 255))"

subsection \<open>hexToRgb\<close>

text \<open>
  \<open>parseInt(s, 16)\<close>: leading white space, a sign, an optional \<open>0x\<close>, then the longest
  run of hexadecimal digits; NaN when the run is empty. Of the white space only the
  ASCII characters are modelled.
\<close>

definition isWhite :: "char \<Rightarrow> bool" where
  "isWhite c = ((of_char c :: nat) \<in> {9, 10, 11, 12, 13, 32})"

definition hexDigitValue :: "char \<Rightarrow> nat option" where
  "hexDigitValue c =
     (let n = (of_char c :: nat) in
      if 48 \<le> n \<and> n \<le> 57 then Some (n - 48)
      else if 97 \<le> n \<and> n \<le> 102 then Some (n - 87)
      else if 65 \<le> n \<and> n \<le> 70 then Some (n - 55)
      else None)"

definition hexValue :: "string \<Rightarrow> nat" where
  "hexValue s = foldl (\<lambda>acc c. acc * 16 + the (hexDigitValue c)) 0 s"

definition parseInt16 :: "string \<Rightarrow> jsnum" where
  "parseInt16 s =
     (let s1 = dropWhile isWhite s;
          neg = (s1 \<noteq> [] \<and> hd s1 = CHR ''-'');
          s2 = (if s1 \<noteq> [] \<and> (hd s1 = CHR ''-'' \<or> hd s1 = CHR ''+'') then tl s1 else s1);
          s3 = (if take 2 s2 = ''0x'' \<or> take 2 s2 = ''0X'' then drop 2 s2 else s2);
          ds = takeWhile (\<lambda>c. hexDigitValue c \<noteq> None) s3
      in if ds = [] then NaN
         else Fin (of_int (if neg then - int (hexValue ds) else int (hexValue ds))))"

text \<open>
  The operands of \<open>>>\<close> and \<open>&\<close> are first brought to 32-bit signed integers: NaN and
  the infinities become 0, other numbers lose their fraction and wrap modulo \<open>2^32\<close>.
\<close>

fun toInt32 :: "jsnum \<Rightarrow> int" where
  "toInt32 (Fin a) = ((truncq a + 2 ^ 31) mod 2 ^ 32) - 2 ^ 31"
| "toInt32 _ = 0"

record rgb =
  rgbR :: jsnum
  rgbG :: jsnum
  rgbB :: jsnum

definition hexToRgb :: "string \<Rightarrow> rgb" where
  "hexToRgb hex =
     (let bigint = parseInt16 (drop 1 hex) in
      \<lparr> rgbR = Fin (of_int (drop_bit 16 (toInt32 bigint) AND 255)),
        rgbG = Fin (of_int (drop_bit 8 (toInt32 bigint) AND 255)),
        rgbB = Fin (of_int (toInt32 bigint AND 255)) \<rparr>)"

section \<open>HistoryManager.js\<close>

text \<open>
  The two stacks, oldest entry first (\<open>push\<close> appends, \<open>pop\<close> takes the last entry,
  \<open>shift\<close> drops the first). Two snapshots serialise to the same text exactly when
  their deep copies are equal.
\<close>

record history =
  historyStack :: "jsval list"
  redoStack :: "jsval list"
  MAX_HISTORY :: nat

definition newHistory :: "nat \<Rightarrow> history" where
  "newHistory maxHistory = \<lparr> historyStack = [], redoStack = [], MAX_HISTORY = maxHistory \<rparr>"

definition saveState :: "history \<Rightarrow> jsval \<Rightarrow> history" where
  "saveState hm animData =
     (if \<not> truthy animData then hm
      else let newState = jsonNorm animData in
        if historyStack hm \<noteq> [] \<and> jsonNorm newState = jsonNorm (last (historyStack hm)) then hm
        else let pushed = historyStack hm @ [newState];
                 trimmed = (if length pushed > MAX_HISTORY hm then tl pushed else pushed)
             in hm \<lparr> historyStack := trimmed, redoStack := [] \<rparr>)"

text \<open>\<open>undo()\<close> returns the restored snapshot, or \<open>None\<close> for null, with the new stacks.\<close>

definition undo :: "history \<Rightarrow> jsval option \<times> history" where
  "undo hm =
     (if length (historyStack hm) \<le> 1 then (None, hm)
      else let popped = last (historyStack hm);
               rest = butlast (historyStack hm)
           in (Some (jsonNorm (last rest)),
               hm \<lparr> historyStack := rest, redoStack := redoStack hm @ [popped] \<rparr>))"

definition redo :: "history \<Rightarrow> jsval \<Rightarrow> jsval option \<times> history" where
  "redo hm currentAnimData =
     (if redoStack hm = [] then (None, hm)
      else let redoState = last (redoStack hm)
           in (Some redoState,
               hm \<lparr> historyStack := historyStack hm @ [jsonNorm currentAnimData],
                    redoStack := butlast (redoStack hm) \<rparr>))"

definition clearHistory :: "history \<Rightarrow> history" where
  "clearHistory hm = hm \<lparr> historyStack := [], redoStack := [] \<rparr>"

text \<open>Saving a list of snapshots one after the other; undoing \<open>n\<close> times.\<close>

fun saveAll :: "history \<Rightarrow> jsval list \<Rightarrow> history" where
  "saveAll hm [] = hm"
| "saveAll hm (x # xs) = saveAll (saveState hm x) xs"

fun undoTimes :: "nat \<Rightarrow> history \<Rightarrow> history" where
  "undoTimes 0 hm = hm"
| "undoTimes (Suc n) hm = undoTimes n (snd (undo hm))"

subsection \<open>rgbToHsl and hslToRgb\<close>

record hsl =
  hslH :: jsnum
  hslS :: jsnum
  hslL :: jsnum

text \<open>
  The \<open>switch (max)\<close> compares with \<open>===\<close>: when no case matches (the maximum is NaN),
  \<open>h\<close> stays undefined and \<open>h * 360\<close> is NaN.
\<close>

definition rgbToHsl :: "jsnum \<Rightarrow> jsnum \<Rightarrow> jsnum \<Rightarrow> hsl" where
  "rgbToHsl r0 g0 b0 =
     (let r = jdiv r0 (Fin 255); g = jdiv g0 (Fin 255); b = jdiv b0 (Fin 255);
          mx = jmax (jmax r g) b;
          mn = jmin (jmin r g) b;
          l = jdiv (jadd mx mn) (Fin 2)
      in if jeq mx mn
         then \<lparr> hslH = jmul (Fin 0) (Fin 360), hslS = jmul (Fin 0) (Fin 100),
                hslL = jmul l (Fin 100) \<rparr>
         else
           let d = jsub mx mn;
               s = (if jgt l (Fin (1 / 2)) then jdiv d (jsub (jsub (Fin 2) mx) mn)
                    else jdiv d (jadd mx mn));
               h = (if jeq mx r
                      then jdiv (jadd (jdiv (jsub g b) d) (if jlt g b then Fin 6 else Fin 0)) (Fin 6)
                    else if jeq mx g then jdiv (jadd (jdiv (jsub b r) d) (Fin 2)) (Fin 6)
                    else if jeq mx b then jdiv (jadd (jdiv (jsub r g) d) (Fin 4)) (Fin 6)
                    else NaN)
           in \<lparr> hslH = jmul h (Fin 360), hslS = jmul s (Fin 100), hslL = jmul l (Fin 100) \<rparr>)"

definition hue2rgb :: "jsnum \<Rightarrow> jsnum \<Rightarrow> jsnum \<Rightarrow> jsnum" where
  "hue2rgb p q t0 =
     (let t1 = (if jlt t0 (Fin 0) then jadd t0 (Fin 1) else t0);
          t = (if jgt t1 (Fin 1) then jsub t1 (Fin 1) else t1)
      in if jlt t (Fin (1 / 6)) then jadd p (jmul (jmul (jsub q p) (Fin 6)) t)
         else if jlt t (Fin (1 / 2)) then q
         else if jlt t (Fin (2 / 3))
           then jadd p (jmul (jmul (jsub q p) (jsub (Fin (2 / 3)) t)) (Fin 6))
         else p)"

definition hslToRgb :: "jsnum \<Rightarrow> jsnum \<Rightarrow> jsnum \<Rightarrow> rgb" where
  "hslToRgb h0 s0 l0 =
     (let h = jdiv h0 (Fin 360); s = jdiv s0 (Fin 100); l = jdiv l0 (Fin 100)
      in if jeq s (Fin 0)
         then \<lparr> rgbR = jround (jmul l (Fin 255)), rgbG = jround (jmul l (Fin 255)),
                rgbB = jround (jmul l (Fin 255)) \<rparr>
         else
           let q = (if jlt l (Fin (1 / 2)) then jmul l (jadd (Fin 1) s)
                    else jsub (jadd l s) (jmul l s));
               p = jsub (jmul (Fin 2) l) q
           in \<lparr> rgbR = jround (jmul (hue2rgb p q (jadd h (Fin (1 / 3)))) (Fin 255)),
                rgbG = jround (jmul (hue2rgb p q h) (Fin 255)),
                rgbB = jround (jmul (hue2rgb p q (jsub h (Fin (1 / 3)))) (Fin 255)) \<rparr>)"

section \<open>ColorExtractor.js\<close>

text \<open>
  The extractor with paths. An instance keeps a live reference \<open>ref\<close> to the object that
  holds its colour. A decoded document is a tree, so an object is known by its address:
  the list of keys and indices that lead to it from the root. \<open>index\<close>, \<open>offset\<close> and
  \<open>stopCount\<close> are null (\<open>None\<close>, \<open>JNull\<close>) unless the instance is a gradient stop.
\<close>

datatype seg = Key string | Idx nat

record colorInstance =
  ctype :: string
  shapeType :: string
  ref :: "seg list"
  hex :: string
  index :: "nat option"
  offset :: jsval
  stopCount :: jsval
  path :: string

record group =
  g_hex :: string
  g_count :: nat
  g_instances :: "colorInstance list"
  g_shapeType :: string

text \<open>
  The state of one extraction: the array \<open>c\<close> of instances found so far, and the
  extractor's field \<open>groupedColors\<close>, an object keyed by lower-case hex.
\<close>

record extraction =
  extracted :: "colorInstance list"
  groupedColors :: "(string \<times> group) list"

definition toLowerCase :: "string \<Rightarrow> string" where
  "toLowerCase s =
     map (\<lambda>c. if 65 \<le> (of_char c :: nat) \<and> (of_char c :: nat) \<le> 90
                then char_of ((of_char c :: nat) + 32) else c) s"

fun bumpGroup :: "(string \<times> group) list \<Rightarrow> string \<Rightarrow> colorInstance \<Rightarrow> (string \<times> group) list" where
  "bumpGroup [] key inst = []"
| "bumpGroup ((k, g) # gs) key inst =
     (if k = key
      then (k, g \<lparr> g_count := g_count g + 1, g_instances := g_instances g @ [inst] \<rparr>) # gs
      else (k, g) # bumpGroup gs key inst)"

definition addColor :: "extraction \<Rightarrow> colorInstance \<Rightarrow> extraction" where
  "addColor st inst =
     (let groupKey = toLowerCase (hex inst);
          gs = (if map_of (groupedColors st) groupKey = None
                then groupedColors st @
                     [(groupKey, \<lparr> g_hex = hex inst, g_count = 0, g_instances = [],
                                   g_shapeType = shapeType inst \<rparr>)]
                else groupedColors st)
      in \<lparr> extracted = extracted st @ [inst], groupedColors = bumpGroup gs groupKey inst \<rparr>)"

text \<open>\<open>path ? `${path}.${key}` : key\<close>.\<close>

definition joinPath :: "string \<Rightarrow> string \<Rightarrow> string" where
  "joinPath p key = (if p \<noteq> [] then p @ ''.'' @ key else key)"

text \<open>The type and the label of a colour found in a \<open>c\<close> field, from the shape type.\<close>

definition fillKind :: "jsval \<Rightarrow> string \<times> string" where
  "fillKind shapeTy =
     (if shapeTy = JStr ''fl'' then (''solid'', ''fill'')
      else if shapeTy = JStr ''st'' then (''stroke'', ''stroke'')
      else (''solid'', ''solid color (unknown)''))"

definition solidInstance ::
  "(jsval \<Rightarrow> jsnum) \<Rightarrow> string \<times> string \<Rightarrow> seg list \<Rightarrow> jsval list \<Rightarrow> string \<Rightarrow> colorInstance" where
  "solidInstance cn kind r arr p =
     \<lparr> ctype = fst kind, shapeType = snd kind, ref = r, hex = rgbaToHex cn arr,
       index = None, offset = JNull, stopCount = JNull, path = p \<rparr>"

text \<open>
  \<open>k.forEach((keyframe, i) => ...)\<close> of \<open>processFill\<close> and \<open>processStroke\<close>, from index
  \<open>i\<close> on. \<open>forEach\<close> passes over holes. Reading \<open>keyframe.s\<close> of a null keyframe
  raises.
\<close>

fun solidKeyframes ::
  "(jsval \<Rightarrow> jsnum) \<Rightarrow> string \<times> string \<Rightarrow> seg list \<Rightarrow> string \<Rightarrow> nat \<Rightarrow> jsval list
     \<Rightarrow> extraction \<Rightarrow> error + extraction" where
  "solidKeyframes cn kind a p i [] st = Inr st"
| "solidKeyframes cn kind a p i (keyframe # rest) st =
     (if keyframe = JUndef then solidKeyframes cn kind a p (Suc i) rest st
      else if keyframe = JNull then Inl TypeError
      else if truthy (getProp keyframe ''s'') \<and> isArray (getProp keyframe ''s'')
        then solidKeyframes cn kind a p (Suc i) rest
               (addColor st (solidInstance cn kind (a @ [Key ''k'', Idx i])
                  (elems (getProp keyframe ''s'')) (p @ ''.k.'' @ showNat i)))
      else solidKeyframes cn kind a p (Suc i) rest st)"

text \<open>\<open>processFill(o, shapeType, c, path)\<close>; \<open>a\<close> is the address of \<open>o.c\<close>.\<close>

definition processFill ::
  "(jsval \<Rightarrow> jsnum) \<Rightarrow> jsval \<Rightarrow> jsval \<Rightarrow> seg list \<Rightarrow> string \<Rightarrow> extraction
     \<Rightarrow> error + extraction" where
  "processFill cn oc shapeTy a p st =
     (if getProp oc ''a'' = JNum (Fin 1)
      then (if isArray (getProp oc ''k'')
            then solidKeyframes cn (fillKind shapeTy) a p 0 (elems (getProp oc ''k'')) st
            else Inr st)
      else if isArray (getProp oc ''k'')
        then Inr (addColor st (solidInstance cn (fillKind shapeTy) a (elems (getProp oc ''k'')) p))
      else Inr st)"

text \<open>\<open>processStroke(o, c, path)\<close>; \<open>a\<close> is the address of \<open>o.sc\<close>.\<close>

definition processStroke ::
  "(jsval \<Rightarrow> jsnum) \<Rightarrow> jsval \<Rightarrow> seg list \<Rightarrow> string \<Rightarrow> extraction \<Rightarrow> error + extraction" where
  "processStroke cn osc a p st =
     (if getProp osc ''a'' = JNum (Fin 1) \<and> isArray (getProp osc ''k'')
      then solidKeyframes cn (''stroke'', ''stroke'') a p 0 (elems (getProp osc ''k'')) st
      else if isArray (getProp osc ''k'')
        then Inr (addColor st
                   (solidInstance cn (''stroke'', ''stroke'') a (elems (getProp osc ''k'')) p))
      else Inr st)"

text \<open>
  The loop of \<open>processGradientStops\<close>: \<open>for (let i = 0; i < loopLimit; i += 4)\<close>, from
  \<open>i\<close> on, for a finite limit. An argument that is undefined takes the default null.
\<close>

function gradientStopsFrom ::
  "(jsval \<Rightarrow> jsnum) \<Rightarrow> string \<Rightarrow> seg list \<Rightarrow> string \<Rightarrow> jsval \<Rightarrow> jsval list \<Rightarrow> rat \<Rightarrow> nat
     \<Rightarrow> extraction \<Rightarrow> extraction" where
  "gradientStopsFrom cn label r p numStops arr loopLimit i st =
     (if of_nat i < loopLimit
      then gradientStopsFrom cn label r p numStops arr loopLimit (i + 4)
             (addColor st
                \<lparr> ctype = ''gradient'', shapeType = label, ref = r,
                  hex = rgbToHex (jmul (toNumber cn (nth_js arr (i + 1))) (Fin 255))
                                 (jmul (toNumber cn (nth_js arr (i + 2))) (Fin 255))
                                 (jmul (toNumber cn (nth_js arr (i + 3))) (Fin 255)),
                  index = Some i,
                  offset = (if nth_js arr i = JUndef then JNull else nth_js arr i),
                  stopCount = numStops,
                  path = p @ ''.'' @ showNat i \<rparr>)
      else st)"
  by pat_completeness auto
termination
proof (relation "measure (\<lambda>(cn, label, r, p, numStops, arr, loopLimit, i, st). nat \<lceil>loopLimit\<rceil> - i)",
       goal_cases)
  case 1
  show ?case by simp
next
  case (2 cn label r p numStops arr loopLimit i st)
  have "loopLimit \<le> of_int \<lceil>loopLimit\<rceil>" by (rule le_of_int_ceiling)
  with 2 have "(of_nat i :: rat) < of_int \<lceil>loopLimit\<rceil>" by (rule less_le_trans)
  then have "(of_int (int i) :: rat) < of_int \<lceil>loopLimit\<rceil>" by simp
  then have "int i < \<lceil>loopLimit\<rceil>" by (simp only: of_int_less_iff)
  then show ?case by simp
qed

declare gradientStopsFrom.simps [simp del]

text \<open>
  \<open>processGradientStops(gradientData, gradientRef, gradientPath)\<close>, with \<open>og\<close> the
  gradient \<open>o.g\<close>. With a limit of +Infinity the loop never ends.
\<close>

definition processGradientStops ::
  "(jsval \<Rightarrow> jsnum) \<Rightarrow> jsval \<Rightarrow> string \<Rightarrow> jsval list \<Rightarrow> seg list \<Rightarrow> string \<Rightarrow> extraction
     \<Rightarrow> error + extraction" where
  "processGradientStops cn og label arr r p st =
     (let numStops = (if truthy (getProp og ''p'') then getProp og ''p''
                      else JNum (jdiv (Fin (of_nat (length arr))) (Fin 4)));
          loopLimit = jmul (toNumber cn numStops) (Fin 4)
      in case loopLimit of
           Fin bound \<Rightarrow> Inr (gradientStopsFrom cn label r p numStops arr bound 0 st)
         | PInf \<Rightarrow> Inl Diverges
         | _ \<Rightarrow> Inr st)"

definition gradientLabel :: "jsval \<Rightarrow> string" where
  "gradientLabel shapeTy =
     (if shapeTy = JStr ''gf'' then ''gradient fill''
      else if shapeTy = JStr ''gs'' then ''gradient stroke''
      else ''gradient'')"

text \<open>The \<open>forEach\<close> over the keyframes of an animated gradient, from index \<open>i\<close> on.\<close>

fun gradientKeyframes ::
  "(jsval \<Rightarrow> jsnum) \<Rightarrow> jsval \<Rightarrow> string \<Rightarrow> seg list \<Rightarrow> string \<Rightarrow> nat \<Rightarrow> jsval list
     \<Rightarrow> extraction \<Rightarrow> error + extraction" where
  "gradientKeyframes cn og label a p i [] st = Inr st"
| "gradientKeyframes cn og label a p i (keyframe # rest) st =
     (if keyframe = JUndef then gradientKeyframes cn og label a p (Suc i) rest st
      else if truthy keyframe \<and> isArray (getProp keyframe ''s'')
        then (case processGradientStops cn og label (elems (getProp keyframe ''s''))
                     (a @ [Key ''k'', Key ''k'', Idx i]) (p @ ''.k.k.'' @ showNat i @ ''.s'') st of
                Inl e \<Rightarrow> Inl e
              | Inr st' \<Rightarrow> gradientKeyframes cn og label a p (Suc i) rest st')
      else gradientKeyframes cn og label a p (Suc i) rest st)"

text \<open>\<open>processGradient(o, shapeType, c, path)\<close>; \<open>a\<close> is the address of \<open>o.g\<close>.\<close>

definition processGradient ::
  "(jsval \<Rightarrow> jsnum) \<Rightarrow> jsval \<Rightarrow> jsval \<Rightarrow> seg list \<Rightarrow> string \<Rightarrow> extraction
     \<Rightarrow> error + extraction" where
  "processGradient cn og shapeTy a p st =
     (let k = getProp og ''k'' in
      if truthy k \<and> \<not> truthy (getProp k ''a'') \<and> isArray k
        then processGradientStops cn og (gradientLabel shapeTy) (elems k) a (p @ ''.k'') st
      else if truthy k \<and> getProp k ''a'' = JNum (Fin 1) \<and> isArray (getProp k ''k'')
        then gradientKeyframes cn og (gradientLabel shapeTy) a p 0 (elems (getProp k ''k'')) st
      else if truthy k \<and> truthy (getProp k ''k'') \<and> isArray (getProp k ''k'')
              \<and> typeofNumber (nth_js (elems (getProp k ''k'')) 0)
        then processGradientStops cn og (gradientLabel shapeTy) (elems (getProp k ''k''))
               (a @ [Key ''k'']) (p @ ''.k.k'') st
      else Inr st)"

text \<open>
  The three colour fields of a node \<open>o\<close> that is an object or an array (an array has
  no property \<open>c\<close>, \<open>sc\<close> or \<open>g\<close>).
\<close>

definition extractSites ::
  "(jsval \<Rightarrow> jsnum) \<Rightarrow> jsval \<Rightarrow> seg list \<Rightarrow> string \<Rightarrow> extraction \<Rightarrow> error + extraction" where
  "extractSites cn node a p st =
     (let shapeTy = getProp node ''ty'' in
      case (if truthy (getProp node ''c'') \<and> truthy (getProp (getProp node ''c'') ''k'')
            then processFill cn (getProp node ''c'') shapeTy (a @ [Key ''c'']) (joinPath p ''c'') st
            else Inr st) of
        Inl e \<Rightarrow> Inl e
      | Inr st1 \<Rightarrow>
         (case (if truthy (getProp node ''sc'') \<and> truthy (getProp (getProp node ''sc'') ''k'')
                then processStroke cn (getProp node ''sc'') (a @ [Key ''sc'']) (joinPath p ''sc'') st1
                else Inr st1) of
            Inl e \<Rightarrow> Inl e
          | Inr st2 \<Rightarrow>
             (if truthy (getProp node ''g'')
              then processGradient cn (getProp node ''g'') shapeTy (a @ [Key ''g'']) (joinPath p ''g'') st2
              else Inr st2)))"

text \<open>
  \<open>recursiveExtract(o, c, path)\<close>. The \<open>for ... in\<close> loop is \<open>extractEntries\<close> on an
  object and \<open>extractElems\<close> on an array (from index \<open>i\<close> on).
\<close>

fun recursiveExtract ::
  "(jsval \<Rightarrow> jsnum) \<Rightarrow> jsval \<Rightarrow> seg list \<Rightarrow> string \<Rightarrow> extraction \<Rightarrow> error + extraction"
  and extractElems ::
  "(jsval \<Rightarrow> jsnum) \<Rightarrow> jsval list \<Rightarrow> nat \<Rightarrow> seg list \<Rightarrow> string \<Rightarrow> extraction \<Rightarrow> error + extraction"
  and extractEntries ::
  "(jsval \<Rightarrow> jsnum) \<Rightarrow> (string \<times> jsval) list \<Rightarrow> seg list \<Rightarrow> string \<Rightarrow> extraction
     \<Rightarrow> error + extraction" where
  "recursiveExtract cn (JObj kvs) a p st =
     (case extractSites cn (JObj kvs) a p st of
        Inl e \<Rightarrow> Inl e
      | Inr st' \<Rightarrow> extractEntries cn kvs a p st')"
| "recursiveExtract cn (JArr xs) a p st = extractElems cn xs 0 a p st"
| "recursiveExtract cn JUndef a p st = Inr st"
| "recursiveExtract cn JNull a p st = Inr st"
| "recursiveExtract cn (JBool b) a p st = Inr st"
| "recursiveExtract cn (JNum n) a p st = Inr st"
| "recursiveExtract cn (JStr s) a p st = Inr st"
| "extractElems cn [] i a p st = Inr st"
| "extractElems cn (x # xs) i a p st =
     (if typeofObject x
      then (case recursiveExtract cn x (a @ [Idx i]) (joinPath p (showNat i)) st of
              Inl e \<Rightarrow> Inl e
            | Inr st' \<Rightarrow> extractElems cn xs (Suc i) a p st')
      else extractElems cn xs (Suc i) a p st)"
| "extractEntries cn [] a p st = Inr st"
| "extractEntries cn ((k, v) # kvs) a p st =
     (if typeofObject v
      then (case recursiveExtract cn v (a @ [Key k]) (joinPath p k) st of
              Inl e \<Rightarrow> Inl e
            | Inr st' \<Rightarrow> extractEntries cn kvs a p st')
      else extractEntries cn kvs a p st)"

text \<open>
  \<open>extractColors(obj)\<close> on an extractor whose field \<open>groupedColors\<close> is \<open>gc\<close>: the
  array returned and the new value of the field.
\<close>

definition extractColors ::
  "(jsval \<Rightarrow> jsnum) \<Rightarrow> (string \<times> group) list \<Rightarrow> jsval
     \<Rightarrow> error + (colorInstance list \<times> (string \<times> group) list)" where
  "extractColors cn gc obj =
     (if truthy obj \<and> typeofObject obj
      then (case recursiveExtract cn obj [] [] \<lparr> extracted = [], groupedColors = [] \<rparr> of
              Inl e \<Rightarrow> Inl e
            | Inr st \<Rightarrow> Inr (extracted st, groupedColors st))
      else Inr ([], gc))"

section \<open>HueShiftManager.js\<close>

text \<open>
  The manager: the baseline (null until the first adjustment), the three shifts, and the
  set of locked paths in insertion order.
\<close>

record hslManager =
  originalAnimData :: jsval
  hueShift :: jsnum
  saturationShift :: jsnum
  lightnessShift :: jsnum
  lockedPaths :: "string list"

definition newHslManager :: hslManager where
  "newHslManager =
     \<lparr> originalAnimData = JNull, hueShift = Fin 0, saturationShift = Fin 0,
       lightnessShift = Fin 0, lockedPaths = [] \<rparr>"

definition setOriginalData :: "hslManager \<Rightarrow> jsval \<Rightarrow> error + hslManager" where
  "setOriginalData m animData =
     (case deepCopy animData of
        Inl e \<Rightarrow> Inl e
      | Inr copy \<Rightarrow>
          Inr (m \<lparr> originalAnimData := copy, hueShift := Fin 0, saturationShift := Fin 0,
                   lightnessShift := Fin 0 \<rparr>))"

definition lockPath :: "hslManager \<Rightarrow> string \<Rightarrow> hslManager" where
  "lockPath m p = (if p \<in> set (lockedPaths m) then m else m \<lparr> lockedPaths := lockedPaths m @ [p] \<rparr>)"

definition unlockPath :: "hslManager \<Rightarrow> string \<Rightarrow> hslManager" where
  "unlockPath m p = m \<lparr> lockedPaths := removeAll p (lockedPaths m) \<rparr>"

definition isPathLocked :: "hslManager \<Rightarrow> string \<Rightarrow> bool" where
  "isPathLocked m p = (p \<in> set (lockedPaths m))"

definition togglePathLock :: "hslManager \<Rightarrow> string \<Rightarrow> bool \<times> hslManager" where
  "togglePathLock m p =
     (if isPathLocked m p then (False, unlockPath m p) else (True, lockPath m p))"

definition clearLocks :: "hslManager \<Rightarrow> hslManager" where
  "clearLocks m = m \<lparr> lockedPaths := [] \<rparr>"

subsection \<open>syncLockedColors\<close>

text \<open>\<open>path.split('.')\<close>.\<close>

fun splitDots :: "string \<Rightarrow> string list" where
  "splitDots [] = [[]]"
| "splitDots (c # cs) =
     (if c = CHR ''.'' then [] # splitDots cs
      else (case splitDots cs of [] \<Rightarrow> [[c]] | w # ws \<Rightarrow> (c # w) # ws))"

text \<open>
  What is done at the end of a locked path, once both parents are found. Reading a
  property of null raises; so does, in a module, writing a property of a value that is
  not an object. A number is taken for the offset of a gradient stop, and the four
  entries of the stop are copied.
\<close>

definition syncLeaf :: "jsval \<Rightarrow> jsval \<Rightarrow> string \<Rightarrow> error + jsval" where
  "syncLeaf currentParent originalParent lastKey =
     (if isNullish currentParent then Inl TypeError
      else let currentValue = getProp currentParent lastKey in
        if currentValue = JUndef then Inr originalParent
        else if typeofNumber currentValue then
          (if isArray currentParent \<and> isArray originalParent then
             (case parseIndex lastKey of
                None \<Rightarrow> Inr originalParent
              | Some idx \<Rightarrow>
                 (if idx + 3 < length (elems currentParent) \<and> idx + 3 < length (elems originalParent)
                  then Inr (JArr ((elems originalParent)
                              [idx := elems currentParent ! idx,
                               idx + 1 := elems currentParent ! (idx + 1),
                               idx + 2 := elems currentParent ! (idx + 2),
                               idx + 3 := elems currentParent ! (idx + 3)]))
                  else Inr originalParent))
           else Inr originalParent)
        else if typeofObject currentValue then
          (case originalParent of
             JObj kvs \<Rightarrow> Inr (setProp originalParent lastKey (jsonNorm currentValue))
           | JArr xs \<Rightarrow> Inr (setProp originalParent lastKey (jsonNorm currentValue))
           | _ \<Rightarrow> Inl TypeError)
        else Inr originalParent)"

text \<open>
  The walk down both trees along the parts of a path; the result is the baseline with
  the change made at the end of the walk, or unchanged where the walk stops.
\<close>

fun syncPath :: "jsval \<Rightarrow> jsval \<Rightarrow> string list \<Rightarrow> string \<Rightarrow> error + jsval" where
  "syncPath currentParent originalParent [] lastKey =
     syncLeaf currentParent originalParent lastKey"
| "syncPath currentParent originalParent (part # parts) lastKey =
     (if truthy currentParent \<and> getProp currentParent part \<noteq> JUndef
      then (if truthy originalParent \<and> getProp originalParent part \<noteq> JUndef
            then (case syncPath (getProp currentParent part) (getProp originalParent part)
                         parts lastKey of
                    Inl e \<Rightarrow> Inl e
                  | Inr child \<Rightarrow> Inr (setProp originalParent part child))
            else Inr originalParent)
      else Inr originalParent)"

fun syncPaths :: "jsval \<Rightarrow> jsval \<Rightarrow> string list \<Rightarrow> error + jsval" where
  "syncPaths currentData original [] = Inr original"
| "syncPaths currentData original (p # ps) =
     (case syncPath currentData original (butlast (splitDots p)) (last (splitDots p)) of
        Inl e \<Rightarrow> Inl e
      | Inr original' \<Rightarrow> syncPaths currentData original' ps)"

definition syncLockedColors :: "hslManager \<Rightarrow> jsval \<Rightarrow> error + hslManager" where
  "syncLockedColors m currentData =
     (if lockedPaths m = [] \<or> \<not> truthy (originalAnimData m) then Inr m
      else (case syncPaths currentData (originalAnimData m) (lockedPaths m) of
              Inl e \<Rightarrow> Inl e
            | Inr original' \<Rightarrow> Inr (m \<lparr> originalAnimData := original' \<rparr>)))"

subsection \<open>The shift of one colour\<close>

text \<open>
  The lines that \<open>adjustRgbaArray\<close> and \<open>adjustGradientStops\<close> share: to HSL, the
  three shifts, and back.
\<close>

definition shiftRgb :: "hslManager \<Rightarrow> jsnum \<Rightarrow> jsnum \<Rightarrow> jsnum \<Rightarrow> rgb" where
  "shiftRgb m r g b =
     (let c = rgbToHsl r g b;
          h = jmod (jadd (jadd (hslH c) (hueShift m)) (Fin 360)) (Fin 360);
          s = jmax (Fin 0) (jmin (Fin 100) (jadd (hslS c) (saturationShift m)));
          l = jmax (Fin 0) (jmin (Fin 100) (jadd (hslL c) (lightnessShift m)))
      in hslToRgb h s l)"

definition adjustRgbaArray :: "(jsval \<Rightarrow> jsnum) \<Rightarrow> hslManager \<Rightarrow> jsval list \<Rightarrow> jsval list" where
  "adjustRgbaArray cn m arr =
     (let newRgb = shiftRgb m (jmul (toNumber cn (nth_js arr 0)) (Fin 255))
                              (jmul (toNumber cn (nth_js arr 1)) (Fin 255))
                              (jmul (toNumber cn (nth_js arr 2)) (Fin 255))
      in setIndex (setIndex (setIndex arr 0 (JNum (jdiv (rgbR newRgb) (Fin 255))))
                     1 (JNum (jdiv (rgbG newRgb) (Fin 255))))
           2 (JNum (jdiv (rgbB newRgb) (Fin 255))))"

subsection \<open>adjustColorProperty\<close>

text \<open>One keyframe of an animated colour, at path \<open>keyframePath\<close>.\<close>

definition adjustKeyframe ::
  "(jsval \<Rightarrow> jsnum) \<Rightarrow> hslManager \<Rightarrow> string \<Rightarrow> jsval \<Rightarrow> error + jsval" where
  "adjustKeyframe cn m keyframePath keyframe =
     (if isPathLocked m keyframePath then Inr keyframe
      else if keyframe = JNull then Inl TypeError
      else if truthy (getProp keyframe ''s'') \<and> isArray (getProp keyframe ''s'')
        then Inr (setProp keyframe ''s''
                    (JArr (adjustRgbaArray cn m (elems (getProp keyframe ''s'')))))
      else Inr keyframe)"

text \<open>\<open>colorProp.k.forEach((keyframe, i) => ...)\<close>, from index \<open>i\<close> on.\<close>

fun adjustKeyframes ::
  "(jsval \<Rightarrow> jsnum) \<Rightarrow> hslManager \<Rightarrow> string \<Rightarrow> nat \<Rightarrow> jsval list \<Rightarrow> error + jsval list" where
  "adjustKeyframes cn m p i [] = Inr []"
| "adjustKeyframes cn m p i (keyframe # rest) =
     (case (if keyframe = JUndef then Inr keyframe
            else adjustKeyframe cn m (p @ ''.k.'' @ showNat i) keyframe) of
        Inl e \<Rightarrow> Inl e
      | Inr keyframe' \<Rightarrow>
         (case adjustKeyframes cn m p (Suc i) rest of
            Inl e \<Rightarrow> Inl e
          | Inr rest' \<Rightarrow> Inr (keyframe' # rest')))"

definition adjustColorProperty ::
  "(jsval \<Rightarrow> jsnum) \<Rightarrow> hslManager \<Rightarrow> jsval \<Rightarrow> string \<Rightarrow> error + jsval" where
  "adjustColorProperty cn m colorProp p =
     (if isPathLocked m p then Inr colorProp
      else if getProp colorProp ''a'' = JNum (Fin 1) \<and> isArray (getProp colorProp ''k'')
        then (case adjustKeyframes cn m p 0 (elems (getProp colorProp ''k'')) of
                Inl e \<Rightarrow> Inl e
              | Inr ks \<Rightarrow> Inr (setProp colorProp ''k'' (JArr ks)))
      else if isArray (getProp colorProp ''k'') \<and> 3 \<le> length (elems (getProp colorProp ''k''))
        then Inr (setProp colorProp ''k''
                    (JArr (adjustRgbaArray cn m (elems (getProp colorProp ''k'')))))
      else Inr colorProp)"

subsection \<open>adjustGradient\<close>

text \<open>
  The loop of \<open>adjustGradientStops\<close>, from \<open>i\<close> on:
  \<open>for (let i = 0; i < loopLimit && i + 3 < arr.length; i += 4)\<close>.
\<close>

function adjustStopsFrom ::
  "(jsval \<Rightarrow> jsnum) \<Rightarrow> hslManager \<Rightarrow> string \<Rightarrow> jsnum \<Rightarrow> nat \<Rightarrow> jsval list \<Rightarrow> jsval list" where
  "adjustStopsFrom cn m p loopLimit i arr =
     (if jlt (Fin (of_nat i)) loopLimit \<and> i + 3 < length arr
      then (if isPathLocked m (p @ ''.'' @ showNat i)
            then adjustStopsFrom cn m p loopLimit (i + 4) arr
            else
              let newRgb = shiftRgb m (jmul (toNumber cn (nth_js arr (i + 1))) (Fin 255))
                                      (jmul (toNumber cn (nth_js arr (i + 2))) (Fin 255))
                                      (jmul (toNumber cn (nth_js arr (i + 3))) (Fin 255))
              in adjustStopsFrom cn m p loopLimit (i + 4)
                   (setIndex (setIndex (setIndex arr (i + 1) (JNum (jdiv (rgbR newRgb) (Fin 255))))
                                (i + 2) (JNum (jdiv (rgbG newRgb) (Fin 255))))
                      (i + 3) (JNum (jdiv (rgbB newRgb) (Fin 255)))))
      else arr)"
  by pat_completeness auto
termination
  by (relation "measure (\<lambda>(cn, m, p, loopLimit, i, arr). length arr - i)")
     (auto simp: setIndex_def)

declare adjustStopsFrom.simps [simp del]

definition adjustGradientStops ::
  "(jsval \<Rightarrow> jsnum) \<Rightarrow> hslManager \<Rightarrow> jsval list \<Rightarrow> jsval \<Rightarrow> string \<Rightarrow> jsval list" where
  "adjustGradientStops cn m arr numStops p =
     adjustStopsFrom cn m p (jmul (toNumber cn numStops) (Fin 4)) 0 arr"

text \<open>\<open>gradientProp.k.k.forEach((keyframe, i) => ...)\<close>, from index \<open>i\<close> on.\<close>

fun adjustGradientKeyframes ::
  "(jsval \<Rightarrow> jsnum) \<Rightarrow> hslManager \<Rightarrow> jsval \<Rightarrow> string \<Rightarrow> nat \<Rightarrow> jsval list \<Rightarrow> jsval list" where
  "adjustGradientKeyframes cn m numStops p i [] = []"
| "adjustGradientKeyframes cn m numStops p i (keyframe # rest) =
     (if keyframe \<noteq> JUndef \<and> truthy keyframe \<and> isArray (getProp keyframe ''s'')
      then setProp keyframe ''s''
             (JArr (adjustGradientStops cn m (elems (getProp keyframe ''s'')) numStops
                      (p @ ''.k.k.'' @ showNat i @ ''.s'')))
      else keyframe)
     # adjustGradientKeyframes cn m numStops p (Suc i) rest"

definition adjustGradient ::
  "(jsval \<Rightarrow> jsnum) \<Rightarrow> hslManager \<Rightarrow> jsval \<Rightarrow> string \<Rightarrow> jsval" where
  "adjustGradient cn m gradientProp p =
     (if isPathLocked m p then gradientProp
      else
        let numStops = (if truthy (getProp gradientProp ''p'') then getProp gradientProp ''p''
                        else JNum (Fin 0));
            k = getProp gradientProp ''k''
        in if \<not> truthy (getProp k ''a'') \<and> isArray k
             then setProp gradientProp ''k''
                    (JArr (adjustGradientStops cn m (elems k) numStops (p @ ''.k'')))
           else if getProp k ''a'' = JNum (Fin 1) \<and> isArray (getProp k ''k'')
             then setProp gradientProp ''k''
                    (setProp k ''k''
                       (JArr (adjustGradientKeyframes cn m numStops p 0 (elems (getProp k ''k'')))))
           else if truthy (getProp k ''k'') \<and> isArray (getProp k ''k'')
                   \<and> typeofNumber (nth_js (elems (getProp k ''k'')) 0)
             then setProp gradientProp ''k''
                    (setProp k ''k''
                       (JArr (adjustGradientStops cn m (elems (getProp k ''k'')) numStops
                                (p @ ''.k.k''))))
           else gradientProp)"

subsection \<open>recursiveAdjustColors\<close>

text \<open>
  The three colour fields of the object with entries \<open>kvs\<close>, adjusted in place one
  after the other: the result is the entries of the object after that. Each of the three
  is an \<open>if (obj.f && obj.f.k) adjust(obj.f, path ? `${path}.f` : "f")\<close>.
\<close>

definition adjustField ::
  "(jsval \<Rightarrow> string \<Rightarrow> error + jsval) \<Rightarrow> (string \<times> jsval) list \<Rightarrow> string \<Rightarrow> string
     \<Rightarrow> error + (string \<times> jsval) list" where
  "adjustField f kvs key p =
     (if truthy (getProp (JObj kvs) key) \<and> truthy (getProp (getProp (JObj kvs) key) ''k'')
      then (case f (getProp (JObj kvs) key) (joinPath p key) of
              Inl e \<Rightarrow> Inl e
            | Inr v \<Rightarrow> Inr (setEntry kvs key v))
      else Inr kvs)"

definition adjustSites ::
  "(jsval \<Rightarrow> jsnum) \<Rightarrow> hslManager \<Rightarrow> (string \<times> jsval) list \<Rightarrow> string
     \<Rightarrow> error + (string \<times> jsval) list" where
  "adjustSites cn m kvs p =
     (case adjustField (adjustColorProperty cn m) kvs ''c'' p of
        Inl e \<Rightarrow> Inl e
      | Inr kvs1 \<Rightarrow>
         (case adjustField (adjustColorProperty cn m) kvs1 ''sc'' p of
            Inl e \<Rightarrow> Inl e
          | Inr kvs2 \<Rightarrow> adjustField (\<lambda>g q. Inr (adjustGradient cn m g q)) kvs2 ''g'' p))"

text \<open>
  The recursion goes into the children as the colour fields have left them. It ends
  because those steps never add an object or an array to the tree: \<open>weight\<close> counts them.
\<close>

fun weight :: "jsval \<Rightarrow> nat"
  and weightList :: "jsval list \<Rightarrow> nat"
  and weightEntries :: "(string \<times> jsval) list \<Rightarrow> nat" where
  "weight (JObj kvs) = Suc (weightEntries kvs)"
| "weight (JArr xs) = Suc (weightList xs)"
| "weight JUndef = 0"
| "weight JNull = 0"
| "weight (JBool b) = 0"
| "weight (JNum n) = 0"
| "weight (JStr s) = 0"
| "weightList [] = 0"
| "weightList (x # xs) = weight x + weightList xs"
| "weightEntries [] = 0"
| "weightEntries ((k, v) # kvs) = weight v + weightEntries kvs"

lemma weightList_setIndex:
  "weight v = 0 \<Longrightarrow> weightList (setIndex xs i v) \<le> weightList xs"
proof -
  assume v: "weight v = 0"
  have a: "\<And>i. weightList (xs[i := v]) \<le> weightList xs"
  proof (induction xs)
    case Nil
    show ?case by simp
  next
    case (Cons x xs)
    show ?case using Cons [of "i - 1"] v by (cases i) (auto simp: le_SucI)
  qed
  have b: "\<And>ys zs. weightList (ys @ zs) = weightList ys + weightList zs"
    subgoal for ys zs by (induction ys) auto
    done
  have c: "\<And>n. weightList (replicate n JUndef) = 0"
    subgoal for n by (induction n) auto
    done
  show ?thesis using a v by (simp add: setIndex_def b c)
qed

lemma weightList_adjustRgbaArray: "weightList (adjustRgbaArray cn m arr) \<le> weightList arr"
  unfolding adjustRgbaArray_def Let_def
  by (intro order_trans [OF weightList_setIndex]) simp_all

lemma weightList_adjustStopsFrom: "weightList (adjustStopsFrom cn m p ll i arr) \<le> weightList arr"
proof (induction cn m p ll i arr rule: adjustStopsFrom.induct)
  case (1 cn m p loopLimit i arr)
  show ?case
  proof (cases "jlt (Fin (of_nat i)) loopLimit \<and> i + 3 < length arr")
    case False
    then show ?thesis by (subst adjustStopsFrom.simps) auto
  next
    case True
    show ?thesis
    proof (cases "isPathLocked m (p @ ''.'' @ showNat i)")
      case l: True
      then show ?thesis using True 1(1)
        by (simp add: adjustStopsFrom.simps [of cn m p loopLimit i arr])
    next
      case l: False
      define newRgb where "newRgb = shiftRgb m (jmul (toNumber cn (nth_js arr (i + 1))) (Fin 255))
                                      (jmul (toNumber cn (nth_js arr (i + 2))) (Fin 255))
                                      (jmul (toNumber cn (nth_js arr (i + 3))) (Fin 255))"
      define arr' where "arr' = setIndex (setIndex (setIndex arr (i + 1) (JNum (jdiv (rgbR newRgb) (Fin 255))))
                                (i + 2) (JNum (jdiv (rgbG newRgb) (Fin 255))))
                      (i + 3) (JNum (jdiv (rgbB newRgb) (Fin 255)))"
      have "weightList arr' \<le> weightList arr"
        unfolding arr'_def by (intro order_trans [OF weightList_setIndex]) simp_all
      moreover have "weightList (adjustStopsFrom cn m p loopLimit (i + 4) arr') \<le> weightList arr'"
        using 1(2) [OF True l newRgb_def] by (simp add: arr'_def)
      moreover have "adjustStopsFrom cn m p loopLimit i arr = adjustStopsFrom cn m p loopLimit (i + 4) arr'"
        using True l by (simp add: adjustStopsFrom.simps [of cn m p loopLimit i arr] Let_def arr'_def newRgb_def)
      ultimately show ?thesis by simp
    qed
  qed
qed

lemma weightEntries_setEntry:
  "weight v \<le> weight (getProp (JObj kvs) key) \<Longrightarrow> weightEntries (setEntry kvs key v) \<le> weightEntries kvs"
  by (induction kvs key v rule: setEntry.induct) auto

lemma weightList_nth: "i < length xs \<Longrightarrow> weight (xs ! i) \<le> weightList xs"
  by (induction xs arbitrary: i) (auto simp: nth_Cons split: nat.splits intro: le_trans trans_le_add2)

lemma weightList_update:
  "i < length xs \<Longrightarrow> weight v \<le> weight (xs ! i) \<Longrightarrow> weightList (xs[i := v]) \<le> weightList xs"
proof (induction xs arbitrary: i)
  case Nil
  then show ?case by simp
next
  case (Cons x xs)
  then show ?case by (cases i) (auto simp: add_mono)
qed

lemma weight_setProp:
  "weight v \<le> weight (getProp w key) \<Longrightarrow> weight (setProp w key v) \<le> weight w"
proof (cases w)
  case (JObj kvs)
  assume "weight v \<le> weight (getProp w key)"
  then show ?thesis using JObj weightEntries_setEntry [of v kvs key] by simp
next
  case (JArr xs)
  assume a: "weight v \<le> weight (getProp w key)"
  show ?thesis
  proof (cases "parseIndex key")
    case None
    then show ?thesis using JArr by simp
  next
    case (Some i)
    show ?thesis
    proof (cases "i < length xs")
      case True
      then show ?thesis using a JArr Some weightList_update [of i xs v]
        by (simp add: setIndex_def)
    next
      case False
      then have "weight v = 0" using a JArr Some by simp
      then show ?thesis using JArr Some weightList_setIndex [of v xs i] by simp
    qed
  qed
qed simp_all

lemma weight_isArray: "isArray a \<Longrightarrow> weight a = Suc (weightList (elems a))"
  by (cases a) auto

lemma weight_adjustKeyframe:
  "adjustKeyframe cn m p kf = Inr kf' \<Longrightarrow> weight kf' \<le> weight kf"
  by (auto simp: adjustKeyframe_def weight_isArray weightList_adjustRgbaArray
      intro!: weight_setProp split: if_splits)

lemma weightList_adjustKeyframes:
  "adjustKeyframes cn m p i kfs = Inr kfs' \<Longrightarrow> weightList kfs' \<le> weightList kfs"
proof (induction kfs arbitrary: i kfs')
  case Nil
  then show ?case by simp
next
  case (Cons kf kfs)
  from Cons.prems obtain kf' rest' where
    h: "(if kf = JUndef then Inr kf else adjustKeyframe cn m (p @ ''.k.'' @ showNat i) kf) = Inr kf'"
    and r: "adjustKeyframes cn m p (Suc i) kfs = Inr rest'" and e: "kfs' = kf' # rest'"
    by (auto split: sum.splits)
  have "weight kf' \<le> weight kf"
    using h weight_adjustKeyframe by (auto split: if_splits)
  moreover have "weightList rest' \<le> weightList kfs" using Cons.IH [OF r] .
  ultimately show ?case by (simp add: e add_mono)
qed

lemma weight_adjustColorProperty:
  "adjustColorProperty cn m cp p = Inr cp' \<Longrightarrow> weight cp' \<le> weight cp"
  by (auto simp: adjustColorProperty_def weight_isArray weightList_adjustRgbaArray
      intro!: weight_setProp split: if_splits sum.splits dest!: weightList_adjustKeyframes)

lemma weightList_adjustGradientKeyframes:
  "weightList (adjustGradientKeyframes cn m ns p i kfs) \<le> weightList kfs"
proof (induction kfs arbitrary: i)
  case Nil
  show ?case by simp
next
  case (Cons kf kfs)
  have "weight (setProp kf ''s'' (JArr (adjustGradientStops cn m (elems (getProp kf ''s'')) ns
                      (p @ ''.k.k.'' @ showNat i @ ''.s'')))) \<le> weight kf"
    if "isArray (getProp kf ''s'')"
    using that by (intro weight_setProp)
      (simp add: weight_isArray adjustGradientStops_def weightList_adjustStopsFrom)
  then show ?case using Cons [of "Suc i"] by (auto intro: add_mono)
qed

lemma weight_adjustGradient: "weight (adjustGradient cn m gp p) \<le> weight gp"
  unfolding adjustGradient_def Let_def
  by (auto intro!: weight_setProp
      simp: weight_isArray adjustGradientStops_def weightList_adjustStopsFrom
        weightList_adjustGradientKeyframes)

lemma weightEntries_adjustField:
  assumes "\<And>v q v'. f v q = Inr v' \<Longrightarrow> weight v' \<le> weight v"
    and "adjustField f kvs key p = Inr kvs'"
  shows "weightEntries kvs' \<le> weightEntries kvs"
  using assms(2) assms(1) [of "getProp (JObj kvs) key" "joinPath p key"]
  by (auto simp: adjustField_def split: if_splits sum.splits intro!: weightEntries_setEntry)

lemma weightEntries_adjustSites:
  assumes "adjustSites cn m kvs p = Inr kvs'"
  shows "weightEntries kvs' \<le> weightEntries kvs"
proof -
  from assms obtain kvs1 kvs2 where
    1: "adjustField (adjustColorProperty cn m) kvs ''c'' p = Inr kvs1"
    and 2: "adjustField (adjustColorProperty cn m) kvs1 ''sc'' p = Inr kvs2"
    and 3: "adjustField (\<lambda>g q. Inr (adjustGradient cn m g q)) kvs2 ''g'' p = Inr kvs'"
    by (auto simp: adjustSites_def split: sum.splits)
  have "weightEntries kvs1 \<le> weightEntries kvs"
    using weightEntries_adjustField [OF _ 1] weight_adjustColorProperty by blast
  moreover have "weightEntries kvs2 \<le> weightEntries kvs1"
    using weightEntries_adjustField [OF _ 2] weight_adjustColorProperty by blast
  moreover have "weightEntries kvs' \<le> weightEntries kvs2"
    using weightEntries_adjustField [OF _ 3] weight_adjustGradient by blast
  ultimately show ?thesis by simp
qed

text \<open>
  \<open>recursiveAdjustColors(obj, path)\<close>. The \<open>for ... in\<close> loop is \<open>adjustEntries\<close> on
  an object and \<open>adjustElems\<close> on an array (from index \<open>i\<close> on). The tree is changed in
  place: the model returns the changed tree.
\<close>

function recursiveAdjustColors ::
  "(jsval \<Rightarrow> jsnum) \<Rightarrow> hslManager \<Rightarrow> jsval \<Rightarrow> string \<Rightarrow> error + jsval"
  and adjustElems ::
  "(jsval \<Rightarrow> jsnum) \<Rightarrow> hslManager \<Rightarrow> jsval list \<Rightarrow> nat \<Rightarrow> string \<Rightarrow> error + jsval list"
  and adjustEntries ::
  "(jsval \<Rightarrow> jsnum) \<Rightarrow> hslManager \<Rightarrow> (string \<times> jsval) list \<Rightarrow> string
     \<Rightarrow> error + (string \<times> jsval) list" where
  "recursiveAdjustColors cn m (JObj kvs) p =
     (case adjustSites cn m kvs p of
        Inl e \<Rightarrow> Inl e
      | Inr kvs' \<Rightarrow>
         (case adjustEntries cn m kvs' p of
            Inl e \<Rightarrow> Inl e
          | Inr kvs'' \<Rightarrow> Inr (JObj kvs'')))"
| "recursiveAdjustColors cn m (JArr xs) p =
     (case adjustElems cn m xs 0 p of
        Inl e \<Rightarrow> Inl e
      | Inr xs' \<Rightarrow> Inr (JArr xs'))"
| "recursiveAdjustColors cn m JUndef p = Inr JUndef"
| "recursiveAdjustColors cn m JNull p = Inr JNull"
| "recursiveAdjustColors cn m (JBool b) p = Inr (JBool b)"
| "recursiveAdjustColors cn m (JNum n) p = Inr (JNum n)"
| "recursiveAdjustColors cn m (JStr s) p = Inr (JStr s)"
| "adjustElems cn m [] i p = Inr []"
| "adjustElems cn m (x # xs) i p =
     (case (if typeofObject x then recursiveAdjustColors cn m x (joinPath p (showNat i))
            else Inr x) of
        Inl e \<Rightarrow> Inl e
      | Inr x' \<Rightarrow>
         (case adjustElems cn m xs (Suc i) p of
            Inl e \<Rightarrow> Inl e
          | Inr xs' \<Rightarrow> Inr (x' # xs')))"
| "adjustEntries cn m [] p = Inr []"
| "adjustEntries cn m ((k, v) # kvs) p =
     (case (if typeofObject v then recursiveAdjustColors cn m v (joinPath p k) else Inr v) of
        Inl e \<Rightarrow> Inl e
      | Inr v' \<Rightarrow>
         (case adjustEntries cn m kvs p of
            Inl e \<Rightarrow> Inl e
          | Inr kvs' \<Rightarrow> Inr ((k, v') # kvs')))"
  by pat_completeness auto
termination
  by (relation "inv_image (less_than <*lex*> less_than)
        (\<lambda>x. case x of
           Inl (cn, m, v, p) \<Rightarrow> (weight v, 0)
         | Inr (Inl (cn, m, xs, i, p)) \<Rightarrow> (weightList xs, length xs)
         | Inr (Inr (cn, m, kvs, p)) \<Rightarrow> (weightEntries kvs, length kvs))")
     (auto simp: le_imp_less_Suc dest!: weightEntries_adjustSites)

subsection \<open>applyAdjustments\<close>

text \<open>
  The result is the document returned together with the manager after the call. What
  the manager holds after a call that raised is not modelled.
\<close>

definition applyAdjustments ::
  "(jsval \<Rightarrow> jsnum) \<Rightarrow> hslManager \<Rightarrow> jsval \<Rightarrow> jsnum \<Rightarrow> jsnum \<Rightarrow> jsnum
     \<Rightarrow> error + (jsval \<times> hslManager)" where
  "applyAdjustments cn m animData hue saturation lightness =
     (case (if \<not> truthy (originalAnimData m) then setOriginalData m animData else Inr m) of
        Inl e \<Rightarrow> Inl e
      | Inr m1 \<Rightarrow>
         (case syncLockedColors m1 animData of
            Inl e \<Rightarrow> Inl e
          | Inr m2 \<Rightarrow>
             let m3 = m2 \<lparr> hueShift := hue, saturationShift := saturation,
                             lightnessShift := lightness \<rparr>
             in (case deepCopy (originalAnimData m3) of
                   Inl e \<Rightarrow> Inl e
                 | Inr freshData \<Rightarrow>
                    (case recursiveAdjustColors cn m3 freshData [] of
                       Inl e \<Rightarrow> Inl e
                     | Inr adjusted \<Rightarrow> Inr (adjusted, m3)))))"

text \<open>\<open>reset()\<close> and \<open>clear()\<close>.\<close>

definition reset :: "hslManager \<Rightarrow> error + (jsval \<times> hslManager)" where
  "reset m =
     (let m' = m \<lparr> hueShift := Fin 0, saturationShift := Fin 0, lightnessShift := Fin 0 \<rparr>
      in if truthy (originalAnimData m)
         then (case deepCopy (originalAnimData m) of
                 Inl e \<Rightarrow> Inl e
               | Inr copy \<Rightarrow> Inr (copy, m'))
         else Inr (JNull, m'))"

definition clear :: "hslManager \<Rightarrow> hslManager" where
  "clear m =
     m \<lparr> originalAnimData := JNull, hueShift := Fin 0, saturationShift := Fin 0,
         lightnessShift := Fin 0 \<rparr>"

section \<open>FileHandler.js\<close>

text \<open>
  \<open>deepTraverseAndCopyColors(sourceObj, targetObj)\<close> changes the target in place: the
  model returns the changed target. The two trees are walked by property name, the
  source's \<open>sourceObj[key]\<close> beside the target's \<open>targetObj[key]\<close>.
\<close>

text \<open>The branch for the keys \<open>c\<close> and \<open>sc\<close>.\<close>

definition copySolid :: "jsval \<Rightarrow> jsval \<Rightarrow> string \<Rightarrow> jsval" where
  "copySolid sourceObj targetObj key =
     (if truthy (getProp sourceObj key) \<and> truthy (getProp (getProp sourceObj key) ''k'')
      then (if truthy (getProp targetObj key) \<and> truthy (getProp (getProp targetObj key) ''k'')
            then (if isArray (getProp (getProp sourceObj key) ''k'')
                  then setProp targetObj key
                         (setProp (getProp targetObj key) ''k'' (getProp (getProp sourceObj key) ''k''))
                  else targetObj)
            else targetObj)
      else targetObj)"

text \<open>The branch for the key \<open>g\<close>.\<close>

definition copyGradient :: "jsval \<Rightarrow> jsval \<Rightarrow> jsval" where
  "copyGradient sourceObj targetObj =
     (let s = getProp sourceObj ''g''; t = getProp targetObj ''g'' in
      if truthy s \<and> isArray (getProp s ''k'')
        then (if truthy t \<and> isArray (getProp t ''k'')
              then setProp targetObj ''g'' (setProp t ''k'' (getProp s ''k''))
              else targetObj)
      else if truthy s \<and> truthy (getProp s ''k'') \<and> isArray (getProp (getProp s ''k'') ''k'')
        then (if truthy t \<and> truthy (getProp t ''k'') \<and> isArray (getProp (getProp t ''k'') ''k'')
              then setProp targetObj ''g''
                     (setProp t ''k''
                        (setProp (getProp t ''k'') ''k'' (getProp (getProp s ''k'') ''k'')))
              else targetObj)
      else targetObj)"

lemma getProp_size [termination_simp]:
  "typeofObject (getProp src key) \<Longrightarrow> getProp src key \<noteq> JNull \<Longrightarrow> size (getProp src key) < size src"
proof (cases src)
  case (JObj kvs)
  have "map_of kvs key = Some v \<Longrightarrow> size v < Suc (size_list (size_prod (\<lambda>_. 0) size) kvs)" for v
    by (induction kvs) (auto split: if_splits)
  moreover assume "typeofObject (getProp src key)" "getProp src key \<noteq> JNull"
  ultimately show ?thesis using JObj by (auto split: option.splits)
next
  case (JArr xs)
  have "i < length xs \<Longrightarrow> size (xs ! i) < Suc (size_list size xs)" for i
  proof (induction xs arbitrary: i)
    case Nil
    then show ?case by simp
  next
    case (Cons a xs)
    show ?case
    proof (cases i)
      case 0
      then show ?thesis by simp
    next
      case (Suc j)
      then have "size (xs ! j) < Suc (size_list size xs)" using Cons by simp
      then show ?thesis using Suc by simp
    qed
  qed
  moreover assume "typeofObject (getProp src key)" "getProp src key \<noteq> JNull"
  ultimately show ?thesis using JArr by (auto split: option.splits if_splits)
qed (auto split: option.splits if_splits)

text \<open>
  \<open>copyIndices\<close> is the loop over the indices of a source array (from \<open>i\<close> on),
  \<open>copyKeys\<close> the loop over the keys of a source object. A call on a target that is
  not an object returns at once, so the target's child is written only when it is one.
\<close>

function deepTraverseAndCopyColors :: "jsval \<Rightarrow> jsval \<Rightarrow> jsval"
  and copyIndices :: "jsval list \<Rightarrow> nat \<Rightarrow> jsval \<Rightarrow> jsval"
  and copyKeys :: "jsval \<Rightarrow> string list \<Rightarrow> jsval \<Rightarrow> jsval" where
  "deepTraverseAndCopyColors sourceObj targetObj =
     (if \<not> truthy sourceObj \<or> \<not> typeofObject sourceObj
         \<or> \<not> truthy targetObj \<or> \<not> typeofObject targetObj
      then targetObj
      else (case sourceObj of
              JArr xs \<Rightarrow> copyIndices xs 0 targetObj
            | JObj kvs \<Rightarrow> copyKeys (JObj kvs) (map fst kvs) targetObj
            | _ \<Rightarrow> targetObj))"
| "copyIndices [] i targetObj = targetObj"
| "copyIndices (x # xs) i targetObj =
     copyIndices xs (Suc i)
       (if truthy (getProp targetObj (showNat i)) \<and> typeofObject (getProp targetObj (showNat i))
        then setProp targetObj (showNat i)
               (deepTraverseAndCopyColors x (getProp targetObj (showNat i)))
        else targetObj)"
| "copyKeys sourceObj [] targetObj = targetObj"
| "copyKeys sourceObj (key # keys) targetObj =
     copyKeys sourceObj keys
       (if key = ''c'' \<or> key = ''sc'' then copySolid sourceObj targetObj key
        else if key = ''g'' then copyGradient sourceObj targetObj
        else if typeofObject (getProp sourceObj key) \<and> getProp sourceObj key \<noteq> JNull
          then (if truthy (getProp targetObj key) \<and> typeofObject (getProp targetObj key)
                then setProp targetObj key
                       (deepTraverseAndCopyColors (getProp sourceObj key) (getProp targetObj key))
                else targetObj)
        else targetObj)"
  by pat_completeness auto
termination
  by (relation "inv_image (less_than <*lex*> less_than <*lex*> less_than)
        (\<lambda>x. case x of
           Inl (s, t) \<Rightarrow> (size s, 1, 0)
         | Inr (Inl (xs, i, t)) \<Rightarrow> (size (JArr xs), 0, length xs)
         | Inr (Inr (s, keys, t)) \<Rightarrow> (size s, 0, length keys))")
     (auto simp: getProp_size)

section \<open>Addresses in a document\<close>

text \<open>
  Where a value sits in a tree: the keys and indices from the root. \<open>pathOf\<close> builds
  the path string of an address as the traversals do, joining with dots.
\<close>

fun getSeg :: "jsval \<Rightarrow> seg \<Rightarrow> jsval" where
  "getSeg (JObj kvs) (Key k) = (case map_of kvs k of Some v \<Rightarrow> v | None \<Rightarrow> JUndef)"
| "getSeg (JArr xs) (Idx i) = nth_js xs i"
| "getSeg v s = JUndef"

fun getAt :: "jsval \<Rightarrow> seg list \<Rightarrow> jsval" where
  "getAt v [] = v"
| "getAt v (s # ss) = getAt (getSeg v s) ss"

fun segName :: "seg \<Rightarrow> string" where
  "segName (Key k) = k"
| "segName (Idx i) = showNat i"

fun pathOf :: "string \<Rightarrow> seg list \<Rightarrow> string" where
  "pathOf p [] = p"
| "pathOf p (s # ss) = pathOf (joinPath p (segName s)) ss"

text \<open>The keys that name a colour field; an address that passes through none of them.\<close>

fun plainSeg :: "seg \<Rightarrow> bool" where
  "plainSeg (Key k) = (k \<noteq> ''c'' \<and> k \<noteq> ''sc'' \<and> k \<noteq> ''g'')"
| "plainSeg (Idx i) = True"

definition plainAddress :: "seg list \<Rightarrow> bool" where
  "plainAddress ss = list_all plainSeg ss"



subsection \<open>The steps of the adjustment, one colour field at a time\<close>



text \<open>The step of the loop at stop \<open>i\<close>.\<close>

definition stopStep :: "(jsval \<Rightarrow> jsnum) \<Rightarrow> hslManager \<Rightarrow> string \<Rightarrow> nat \<Rightarrow> jsval list \<Rightarrow> jsval list" where
  "stopStep cn m p i arr =
     (if isPathLocked m (p @ ''.'' @ showNat i) then arr
      else
        let newRgb = shiftRgb m (jmul (toNumber cn (nth_js arr (i + 1))) (Fin 255))
                                (jmul (toNumber cn (nth_js arr (i + 2))) (Fin 255))
                                (jmul (toNumber cn (nth_js arr (i + 3))) (Fin 255))
        in setIndex (setIndex (setIndex arr (i + 1) (JNum (jdiv (rgbR newRgb) (Fin 255))))
                       (i + 2) (JNum (jdiv (rgbG newRgb) (Fin 255))))
             (i + 3) (JNum (jdiv (rgbB newRgb) (Fin 255))))"





text \<open>
  The copy of the baseline that an adjustment starts from:
  \<open>JSON.parse(JSON.stringify(this.originalAnimData))\<close>.
\<close>

definition freshData :: "hslManager \<Rightarrow> jsval" where
  "freshData m = jsonNorm (originalAnimData m)"

subsection \<open>The conversions on finite numbers, and the tolerance of a channel\<close>





section \<open>Sample data\<close>

definition sampleStates :: "jsval list" where
  "sampleStates = map (\<lambda>i. JObj [(''v'', JNum (Fin (of_nat i)))]) [0..<25]"







text \<open>
  A gradient without the field \<open>p\<close> and the same gradient with it; a colour and a
  gradient whose only keyframe is null.
\<close>

definition gradientNoCount :: jsval where
  "gradientNoCount =
     JObj [(''g'', JObj [(''k'', JArr [JNum (Fin 0), JNum (Fin 1), JNum (Fin 0), JNum (Fin 0)])])]"

definition gradientWithCount :: jsval where
  "gradientWithCount =
     JObj [(''g'', JObj [(''p'', JNum (Fin 1)),
                         (''k'', JArr [JNum (Fin 0), JNum (Fin 1), JNum (Fin 0), JNum (Fin 0)])])]"

definition nullKeyframeDoc :: jsval where
  "nullKeyframeDoc = JObj [(''c'', JObj [(''a'', JNum (Fin 1)), (''k'', JArr [JNull])])]"

definition nullGradientKeyframeDoc :: jsval where
  "nullGradientKeyframeDoc =
     JObj [(''g'', JObj [(''k'', JObj [(''a'', JNum (Fin 1)), (''k'', JArr [JNull])])])]"



section \<open>Properties\<close>

subsection \<open>Hexadecimal colours\<close>


lemma digitChar_value: "n < 16 \<Longrightarrow> hexDigitValue (digitChar n) = Some n"
proof -
  assume "n < 16"
  then have "n \<in> {0,1,2,3,4,5,6,7,8,9,10,11,12,13,14,15}" by (simp; arith)
  then show ?thesis
    by (auto simp: hexDigitValue_def digitChar_def)
qed

lemma digitChar_lower: "n < 16 \<Longrightarrow> digitChar n \<in> set ''0123456789abcdef''"
proof -
  assume "n < 16"
  then have "n \<in> {0,1,2,3,4,5,6,7,8,9,10,11,12,13,14,15}" by (simp; arith)
  then show ?thesis
    by (auto simp: digitChar_def)
qed

lemma digitChar_not_special: "n < 16 \<Longrightarrow> \<not> isWhite (digitChar n) \<and> digitChar n \<noteq> CHR ''-'' \<and> digitChar n \<noteq> CHR ''+''
   \<and> digitChar n \<noteq> CHR ''x'' \<and> digitChar n \<noteq> CHR ''X''"
proof -
  assume "n < 16"
  then have "n \<in> {0,1,2,3,4,5,6,7,8,9,10,11,12,13,14,15}" by (simp; arith)
  then show ?thesis
    by (auto simp: digitChar_def isWhite_def)
qed

lemma byte_hex: "n < 256 \<Longrightarrow> padStart2 (toHexNat n) = [digitChar (n div 16), digitChar (n mod 16)]"
proof (cases "n < 16")
  case True
  then show ?thesis by (simp add: toHexNat.simps [of n] padStart2_def digitChar_def)
next
  case False
  assume "n < 256"
  then have "n div 16 < 16" by simp
  with False show ?thesis
    by (simp add: toHexNat.simps [of n] toHexNat.simps [of "n div 16"] padStart2_def)
qed

lemma round_int: "0 \<le> k \<Longrightarrow> roundToString16 (Fin (of_int k)) = toHexNat (nat k)"
proof -
  have "\<lfloor>(of_int k :: rat) + 1 / 2\<rfloor> = k" by linarith
  moreover assume "0 \<le> k"
  ultimately show ?thesis by (simp add: Let_def)
qed

lemma rgbToHex_bytes:
  assumes "0 \<le> r" "r \<le> 255" "0 \<le> g" "g \<le> 255" "0 \<le> b" "b \<le> 255"
  shows "rgbToHex (Fin (of_int r)) (Fin (of_int g)) (Fin (of_int b)) =
     [CHR ''#'', digitChar (nat r div 16), digitChar (nat r mod 16),
      digitChar (nat g div 16), digitChar (nat g mod 16),
      digitChar (nat b div 16), digitChar (nat b mod 16)]"
  using assms by (simp add: rgbToHex_def round_int byte_hex del: roundToString16.simps)

lemma parse6:
  assumes "a < 16" "b < 16" "c < 16" "d < 16" "e < 16" "f < 16"
  shows "parseInt16 [digitChar a, digitChar b, digitChar c, digitChar d, digitChar e, digitChar f]
     = Fin (of_int (int (((((a * 16 + b) * 16 + c) * 16 + d) * 16 + e) * 16 + f)))"
  using assms digitChar_not_special [of a] digitChar_not_special [of b]
  by (simp add: parseInt16_def Let_def digitChar_value hexValue_def)

lemma and255: "(k::int) AND 255 = k mod 256"
  using take_bit_eq_mask [where ?'a = int and n = 8, of k]
  by (simp add: take_bit_eq_mod mask_eq_exp_minus_1)

lemma shifts:
  assumes rng: "0 \<le> r" "r \<le> 255" "0 \<le> g" "g \<le> 255" "0 \<le> b" "b \<le> 255"
  shows "toInt32 (Fin (of_int ((r * 256 + g) * 256 + b))) = (r * 256 + g) * 256 + b"
    and "drop_bit 16 ((r * 256 + g) * 256 + b) AND 255 = r"
    and "drop_bit 8 ((r * 256 + g) * 256 + b) AND 255 = g"
    and "((r * 256 + g) * 256 + b) AND 255 = b"
proof -
  define v where "v = (r * 256 + g) * 256 + b"
  have v0: "0 \<le> v" "v < 2 ^ 24" using rng by (auto simp: v_def)
  have "truncq (of_int v) = v" by (simp add: truncq_def v0)
  then have "toInt32 (Fin (of_int v)) = v" using v0 by simp
  then show "toInt32 (Fin (of_int ((r * 256 + g) * 256 + b))) = (r * 256 + g) * 256 + b"
    by (simp only: v_def)
  have d8: "v div 256 = r * 256 + g" using rng by (simp add: v_def)
  have "v div 65536 = (v div 256) div 256"
    by (simp add: zdiv_zmult2_eq [symmetric])
  then have d16: "v div 65536 = r" using rng by (simp add: d8)
  have "drop_bit 16 v AND 255 = r" using rng by (simp add: and255 drop_bit_eq_div d16)
  then show "drop_bit 16 ((r * 256 + g) * 256 + b) AND 255 = r" by (simp only: v_def)
  have "drop_bit 8 v AND 255 = g" using rng by (simp add: and255 drop_bit_eq_div d8)
  then show "drop_bit 8 ((r * 256 + g) * 256 + b) AND 255 = g" by (simp only: v_def)
  have "((r * 256 + g) * 256 + b) mod 256 = b mod 256"
    by (simp only: mod_mult_self3)
  then show "((r * 256 + g) * 256 + b) AND 255 = b" using rng by (simp only: and255) simp
qed

text \<open>
  Claim C10. For all integers r, g, b from 0 to 255, \<open>hexToRgb(rgbToHex(r, g, b))\<close> is
  exactly \<open>{r, g, b}\<close>, and \<open>rgbToHex(r, g, b)\<close> is a string of seven characters: a
  \<open>#\<close> followed by six lower-case hexadecimal digits.
\<close>

theorem hex_roundtrip:
  assumes "0 \<le> r" "r \<le> 255" "0 \<le> g" "g \<le> 255" "0 \<le> b" "b \<le> 255"
  shows "hexToRgb (rgbToHex (Fin (of_int r)) (Fin (of_int g)) (Fin (of_int b)))
           = \<lparr> rgbR = Fin (of_int r), rgbG = Fin (of_int g), rgbB = Fin (of_int b) \<rparr>
         \<and> length (rgbToHex (Fin (of_int r)) (Fin (of_int g)) (Fin (of_int b))) = 7
         \<and> hd (rgbToHex (Fin (of_int r)) (Fin (of_int g)) (Fin (of_int b))) = CHR ''#''
         \<and> set (tl (rgbToHex (Fin (of_int r)) (Fin (of_int g)) (Fin (of_int b))))
               \<subseteq> set ''0123456789abcdef''"
proof -
  define v where "v = (r * 256 + g) * 256 + b"
  have lt: "nat r div 16 < 16" "nat r mod 16 < 16" "nat g div 16 < 16" "nat g mod 16 < 16"
    "nat b div 16 < 16" "nat b mod 16 < 16"
    using assms by auto
  have val: "int (((((nat r div 16 * 16 + nat r mod 16) * 16 + nat g div 16) * 16 + nat g mod 16) * 16
      + nat b div 16) * 16 + nat b mod 16) = v"
    using assms by (simp add: v_def algebra_simps)
  have p: "parseInt16 (drop 1 (rgbToHex (Fin (of_int r)) (Fin (of_int g)) (Fin (of_int b))))
      = Fin (of_int v)"
    by (simp only: rgbToHex_bytes [OF assms] drop_Suc_Cons drop_0 One_nat_def parse6 [OF lt] val)
  have "hexToRgb (rgbToHex (Fin (of_int r)) (Fin (of_int g)) (Fin (of_int b)))
           = \<lparr> rgbR = Fin (of_int r), rgbG = Fin (of_int g), rgbB = Fin (of_int b) \<rparr>"
    unfolding hexToRgb_def p Let_def using shifts [OF assms] by (simp add: v_def)
  moreover have "set (tl (rgbToHex (Fin (of_int r)) (Fin (of_int g)) (Fin (of_int b))))
               \<subseteq> set ''0123456789abcdef''"
    using lt [THEN digitChar_lower] by (simp add: rgbToHex_bytes [OF assms])
  ultimately show ?thesis by (simp add: rgbToHex_bytes [OF assms])
qed

theorem hex_roundtrip_witness:
  "hexToRgb (rgbToHex (Fin 255) (Fin 128) (Fin 7)) = \<lparr> rgbR = Fin 255, rgbG = Fin 128, rgbB = Fin 7 \<rparr>
   \<and> length (rgbToHex (Fin 255) (Fin 128) (Fin 7)) = 7"
  using hex_roundtrip [of 255 128 7] by simp


subsection \<open>History\<close>


lemma jsonNorm_not_undef: "jsonNorm v \<noteq> JUndef"
proof (cases v)
  case (JNum n)
  then show ?thesis by (cases n) auto
qed auto

lemma jsonNorm_idem:
  "jsonNorm (jsonNorm v) = jsonNorm v"
  "jsonNormList (jsonNormList vs) = jsonNormList vs"
  "jsonNormEntries (jsonNormEntries kvs) = jsonNormEntries kvs"
  by (induction v and vs and kvs rule: jsonNorm_jsonNormList_jsonNormEntries.induct)
     (auto simp: jsonNorm_not_undef)

lemma tl_drop_snoc: "k \<le> length ys \<Longrightarrow> tl (drop k ys @ [z]) = drop (Suc k) (ys @ [z])"
proof (cases "k < length ys")
  case True
  then have "drop k ys \<noteq> []" by simp
  then show ?thesis by (simp add: tl_drop drop_Suc tl_append2)
next
  case False
  assume "k \<le> length ys"
  with False have "k = length ys" by simp
  then show ?thesis by simp
qed

lemma saveAll_snoc: "saveAll hm (xs @ [x]) = saveState (saveAll hm xs) x"
  by (induction xs arbitrary: hm) auto

lemma saveAll_fresh:
  assumes "distinct (map jsonNorm xs)" "\<forall>x \<in> set xs. truthy x"
  shows "historyStack (saveAll (newHistory m) xs) = drop (length xs - m) (map jsonNorm xs)
       \<and> MAX_HISTORY (saveAll (newHistory m) xs) = m"
  using assms
proof (induction xs rule: rev_induct)
  case Nil
  then show ?case by (simp add: newHistory_def)
next
  case (snoc x xs)
  define hm where "hm = saveAll (newHistory m) xs"
  define ys where "ys = map jsonNorm xs"
  have st: "historyStack hm = drop (length xs - m) ys" and mx: "MAX_HISTORY hm = m"
    using snoc by (auto simp: hm_def ys_def)
  have tr: "truthy x" using snoc.prems by simp
  have new: "jsonNorm x \<notin> set ys" using snoc.prems by (simp add: ys_def)
  have lastin: "historyStack hm \<noteq> [] \<Longrightarrow> last (historyStack hm) \<in> set ys"
    using st by (metis in_set_dropD last_in_set)
  have nodup: "(historyStack hm \<noteq> [] \<and> jsonNorm (jsonNorm x) = jsonNorm (last (historyStack hm))) = False"
  proof (rule iffI)
    assume a: "historyStack hm \<noteq> [] \<and> jsonNorm (jsonNorm x) = jsonNorm (last (historyStack hm))"
    then obtain z where z: "z \<in> set xs" "last (historyStack hm) = jsonNorm z"
      using lastin by (auto simp: ys_def)
    with a have "jsonNorm x = jsonNorm z" by (simp add: jsonNorm_idem)
    with z new show False by (auto simp: ys_def)
  qed simp
  have len: "length (historyStack hm) = min (length xs) m"
    by (simp add: st ys_def)
  have "historyStack (saveState hm x) = drop (Suc (length xs) - m) (ys @ [jsonNorm x])"
  proof (cases "m \<le> length xs")
    case True
    then have "length (historyStack hm @ [jsonNorm x]) > m" by (simp add: len)
    then have "historyStack (saveState hm x) = tl (historyStack hm @ [jsonNorm x])"
      unfolding saveState_def Let_def nodup using tr by (simp add: mx)
    also have "\<dots> = drop (Suc (length xs - m)) (ys @ [jsonNorm x])"
      by (simp add: st tl_drop_snoc ys_def)
    finally show ?thesis using True by (simp add: Suc_diff_le)
  next
    case False
    then have "\<not> length (historyStack hm @ [jsonNorm x]) > m" by (simp add: len)
    then have "historyStack (saveState hm x) = historyStack hm @ [jsonNorm x]"
      unfolding saveState_def Let_def nodup using tr by (simp add: mx)
    then show ?thesis using False by (simp add: st)
  qed
  moreover have "MAX_HISTORY (saveState hm x) = m"
    by (simp add: saveState_def Let_def mx)
  ultimately show ?case
    by (simp add: saveAll_snoc hm_def ys_def)
qed

lemma undo_floor: "historyStack hm \<noteq> [] \<Longrightarrow> historyStack (snd (undo hm)) \<noteq> []"
  by (cases "historyStack hm" rule: rev_cases) (auto simp: undo_def Let_def)

lemma undo_length:
  "length (historyStack (snd (undo hm))) = (if length (historyStack hm) \<le> 1 then length (historyStack hm) else length (historyStack hm) - 1)"
  by (auto simp: undo_def Let_def)

lemma undoTimes_length:
  "1 \<le> length (historyStack hm) \<Longrightarrow> length (historyStack (undoTimes n hm)) = max 1 (length (historyStack hm) - n)"
proof (induction n arbitrary: hm)
  case 0
  then show ?case by simp
next
  case (Suc n)
  have "1 \<le> length (historyStack (snd (undo hm)))" using Suc.prems by (simp add: undo_length) arith
  from Suc.IH [OF this] show ?case using Suc.prems by (simp add: undo_length)
qed


text \<open>
  Claim C7. With a maximum of 20, saving 25 pairwise distinct snapshots to a new history
  leaves exactly 20 entries, the 5 oldest gone and the rest in order. However often
  \<open>undo()\<close> is called after that, the undo stack keeps at least one entry (19 calls
  leave exactly one), and on a stack of at most one entry \<open>undo()\<close> changes nothing
  and returns null.
\<close>

theorem history_bounds:
  assumes "length xs = 25" "distinct (map jsonNorm xs)" "\<forall>x \<in> set xs. truthy x"
  shows "historyStack (saveAll (newHistory 20) xs) = drop 5 (map jsonNorm xs)
       \<and> length (historyStack (saveAll (newHistory 20) xs)) = 20
       \<and> (\<forall>n. 1 \<le> length (historyStack (undoTimes n (saveAll (newHistory 20) xs))))
       \<and> length (historyStack (undoTimes 19 (saveAll (newHistory 20) xs))) = 1
       \<and> (\<forall>hm. length (historyStack hm) \<le> 1 \<longrightarrow> undo hm = (None, hm))"
proof -
  define H where "H = saveAll (newHistory 20) xs"
  have st: "historyStack H = drop 5 (map jsonNorm xs)"
    using saveAll_fresh [OF assms(2,3), of 20] assms(1) by (simp add: H_def)
  then have len: "length (historyStack H) = 20" using assms(1) by simp
  have "\<forall>n. 1 \<le> length (historyStack (undoTimes n H))"
    using undoTimes_length [of H] len by simp
  moreover have "length (historyStack (undoTimes 19 H)) = 1"
    using undoTimes_length [of H 19] len by simp
  moreover have "\<forall>hm. length (historyStack hm) \<le> 1 \<longrightarrow> undo hm = (None, hm)"
    by (simp add: undo_def)
  ultimately show ?thesis using st len by (simp add: H_def)
qed

theorem history_bounds_witness:
  "length sampleStates = 25 \<and> distinct (map jsonNorm sampleStates)
   \<and> list_all truthy sampleStates
   \<and> historyStack (saveAll (newHistory 20) sampleStates) = drop 5 (map jsonNorm sampleStates)
   \<and> length (historyStack (undoTimes 19 (saveAll (newHistory 20) sampleStates))) = 1
   \<and> undo (undoTimes 19 (saveAll (newHistory 20) sampleStates))
       = (None, undoTimes 19 (saveAll (newHistory 20) sampleStates))"
proof -
  have h1: "length sampleStates = 25" by (simp add: sampleStates_def)
  have h2: "distinct (map jsonNorm sampleStates)"
    by (simp add: sampleStates_def distinct_map inj_on_def comp_def)
  have h3: "\<forall>x \<in> set sampleStates. truthy x" by (auto simp: sampleStates_def)
  show ?thesis using history_bounds [OF h1 h2 h3] h1 h2 h3 by (simp add: list_all_iff)
qed

subsection \<open>Extraction\<close>













text \<open>
  Claim C9. Extraction never raises on a document tree, and on an input that is not an
  object it returns an empty list together with an empty map of grouped colours. The
  code does neither: an animated colour with a null keyframe raises in \<open>processFill\<close>
  (the same keyframe of a gradient is passed over, \<open>processGradient\<close> tests it first),
  and on null the extractor keeps the groups of the extraction before.
\<close>

theorem extraction_raises_on_null_keyframe:
  "extractColors cn gc nullKeyframeDoc = Inl TypeError
   \<and> extractColors cn gc nullGradientKeyframeDoc = Inr ([], [])
   \<and> extractColors cn gc JNull = Inr ([], gc)"
  by code_simp

subsection \<open>Global adjustment\<close>

text \<open>
  Claim C1. \<open>applyAdjustments\<close> shifts every gradient stop that is not locked, also
  those of a gradient without the field \<open>p\<close>, whose stop count is the length of the
  array divided by 4. The code does not: \<open>adjustGradient\<close> takes 0 for a missing \<open>p\<close>
  and leaves the gradient as it is, while the extractor finds its stop (stop count 1),
  and the same gradient with \<open>p = 1\<close> is turned from red to green.
\<close>

theorem gradient_without_stop_count_unchanged:
  "applyAdjustments cn newHslManager gradientNoCount (Fin 120) (Fin 0) (Fin 0)
     = Inr (gradientNoCount,
            newHslManager \<lparr> originalAnimData := gradientNoCount, hueShift := Fin 120 \<rparr>)
   \<and> map_sum id fst (extractColors cn gc gradientNoCount)
     = Inr [\<lparr> ctype = ''gradient'', shapeType = ''gradient'', ref = [Key ''g''],
              hex = ''#ff0000'', index = Some 0, offset = JNum (Fin 0),
              stopCount = JNum (Fin 1), path = ''g.k.0'' \<rparr>]
   \<and> map_sum id fst (applyAdjustments cn newHslManager gradientWithCount (Fin 120) (Fin 0) (Fin 0))
     = Inr (JObj [(''g'', JObj [(''p'', JNum (Fin 1)),
                    (''k'', JArr [JNum (Fin 0), JNum (Fin 0), JNum (Fin 1), JNum (Fin 0)])])])"
  by code_simp

section \<open>What the global adjustment does to each colour\<close>














subsection \<open>Arrays\<close>

lemma nth_js_setIndex: "nth_js (setIndex xs i v) j = (if j = i then v else nth_js xs j)"
  by (auto simp: nth_js_def setIndex_def nth_append)

lemma length_setIndex: "length (setIndex xs i v) = max (length xs) (Suc i)"
  by (auto simp: setIndex_def)


lemma nth_js_adjustRgbaArray:
  "nth_js (adjustRgbaArray cn m arr) j =
     (if j < 3 then nth_js (adjustRgbaArray cn m [nth_js arr 0, nth_js arr 1, nth_js arr 2]) j
      else nth_js arr j)"
  by (auto simp: adjustRgbaArray_def Let_def nth_js_setIndex)
     (auto simp: nth_js_def)

lemma length_adjustRgbaArray: "length (adjustRgbaArray cn m arr) = max (length arr) 3"
  by (simp add: adjustRgbaArray_def Let_def length_setIndex)



subsection \<open>Gradient stops\<close>


lemma adjustStopsFrom_unfold:
  "adjustStopsFrom cn m p ll i arr =
     (if jlt (Fin (of_nat i)) ll \<and> i + 3 < length arr
      then adjustStopsFrom cn m p ll (i + 4) (stopStep cn m p i arr) else arr)"
  by (subst adjustStopsFrom.simps) (simp add: stopStep_def Let_def)



lemma length_stopStep: "i + 3 < length arr \<Longrightarrow> length (stopStep cn m p i arr) = length arr"
  by (simp add: stopStep_def Let_def length_setIndex)


lemma length_adjustStopsFrom: "length (adjustStopsFrom cn m p ll i arr) = length arr"
proof (induction "length arr - i" arbitrary: i arr rule: less_induct)
  case less
  show ?case
  proof (cases "jlt (Fin (of_nat i)) ll \<and> i + 3 < length arr")
    case True
    then have "length (adjustStopsFrom cn m p ll (i + 4) (stopStep cn m p i arr))
        = length (stopStep cn m p i arr)"
      by (intro less.hyps) (auto simp: length_stopStep)
    then show ?thesis using True by (subst adjustStopsFrom_unfold) (simp add: length_stopStep)
  next
    case False
    then show ?thesis by (subst adjustStopsFrom_unfold) auto
  qed
qed




subsection \<open>Keyframes\<close>



subsection \<open>Addresses\<close>


lemma getSeg_undef: "getSeg JUndef s = JUndef"
  by (cases s) auto

lemma getAt_undef: "getAt JUndef ss = JUndef"
  by (induction ss) (auto simp: getSeg_undef)



lemma pathOf_snoc: "pathOf p (ks @ [s]) = joinPath (pathOf p ks) (segName s)"
  by (induction ks arbitrary: p) auto

lemma plainAddress_append: "plainAddress (a @ b) = (plainAddress a \<and> plainAddress b)"
  by (simp add: plainAddress_def)




lemma showNat_nonempty: "showNat n \<noteq> []"
  by (subst showNat.simps) simp








lemma pathOf_snoc2:
  "pathOf [] ks \<noteq> [] \<Longrightarrow> pathOf [] (ks @ [s]) = pathOf [] ks @ ''.'' @ segName s"
  by (simp add: pathOf_snoc joinPath_def)















section \<open>Locked paths\<close>











section \<open>The adjustment with no shift\<close>


























end
